theory Spec2Isabelle
  imports Main
begin

section \<open>Strings of the JavaScript runtime\<close>

text \<open>
  A source string is modelled as a \<^typ>\<open>string\<close>. Files and messages are UTF-8 text, one
  \<^typ>\<open>char\<close> per byte; on ASCII text a byte, a character and a UTF-16 code unit are
  the same thing, so \<open>substring(0, n)\<close> is \<^term>\<open>take n\<close> there. Literals of the source that
  are not ASCII (emoji, the bullet) are written as their UTF-8 bytes. \<open>toLowerCase\<close>
  and the character classes of the regular expressions act on ASCII.
\<close>

definition code_of :: "char \<Rightarrow> nat" where
  "code_of c = of_char c"

definition lower_char :: "char \<Rightarrow> char" where
  "lower_char c =
     (if 65 \<le> code_of c \<and> code_of c \<le> (90::nat) then char_of (code_of c + (32::nat)) else c)"

definition toLowerCase :: "string \<Rightarrow> string" where
  "toLowerCase s = map lower_char s"

fun startsWith :: "string \<Rightarrow> string \<Rightarrow> bool" where
  "startsWith s [] = True"
| "startsWith [] (p # ps) = False"
| "startsWith (c # cs) (p # ps) = (c = p \<and> startsWith cs ps)"

text \<open>\<open>s.includes(t)\<close>: \<open>t\<close> occurs in \<open>s\<close> as a contiguous run.\<close>

fun str_includes :: "string \<Rightarrow> string \<Rightarrow> bool" where
  "str_includes [] t = (t = [])"
| "str_includes (c # cs) t = (startsWith (c # cs) t \<or> str_includes cs t)"

text \<open>\<open>xs.join(sep)\<close>.\<close>

fun join :: "string \<Rightarrow> string list \<Rightarrow> string" where
  "join sep [] = []"
| "join sep [x] = x"
| "join sep (x # y # ys) = x @ sep @ join sep (y # ys)"

text \<open>\<open>s.split(sep)\<close> for a separator of one character: never an empty array.\<close>

fun split_on :: "char \<Rightarrow> string \<Rightarrow> string list" where
  "split_on sep [] = [[]]"
| "split_on sep (c # cs) =
     (if c = sep then [] # split_on sep cs
      else (case split_on sep cs of [] \<Rightarrow> [[c]] | l # ls \<Rightarrow> (c # l) # ls))"

text \<open>White space (\<open>\s\<close>, \<open>trim\<close>) and word characters (\<open>\w\<close>), on ASCII.\<close>

definition is_space :: "char \<Rightarrow> bool" where
  "is_space c = (code_of c \<in> {9, 10, 11, 12, 13, 32 :: nat})"

definition is_digit :: "char \<Rightarrow> bool" where
  "is_digit c = (48 \<le> code_of c \<and> code_of c \<le> (57::nat))"

definition is_word :: "char \<Rightarrow> bool" where
  "is_word c =
     (is_digit c \<or> (65 \<le> code_of c \<and> code_of c \<le> (90::nat))
      \<or> (97 \<le> code_of c \<and> code_of c \<le> (122::nat)) \<or> c = CHR ''_'')"

definition trim :: "string \<Rightarrow> string" where
  "trim s = rev (dropWhile is_space (rev (dropWhile is_space s)))"

text \<open>The decimal text of a number, as a template literal prints it.\<close>

fun digits_of :: "nat \<Rightarrow> string" where
  "digits_of n =
     (if n < 10 then [char_of (48 + n)] else digits_of (n div 10) @ [char_of (48 + n mod 10)])"

declare digits_of.simps [simp del]

section \<open>JSON values and \<open>JSON.parse\<close>\<close>

text \<open>
  A parsed value. A number keeps its text; an object keeps its members in the order of
  the document.
\<close>

datatype json =
    JNull
  | JBool bool
  | JNum string
  | JStr string
  | JArr "json list"
  | JObj "(string \<times> json) list"

text \<open>
  \<open>JSON.parse\<close> is the runtime's, not this repository's. It is modelled by a recursive
  descent over the grammar of ECMA-404; \<^term>\<open>None\<close> is the \<open>SyntaxError\<close> it throws.
  The fuel of the mutual recursion is twice the length of the text, which every
  document stays under, since two nested calls always consume a character.
\<close>

definition json_ws :: "char \<Rightarrow> bool" where
  "json_ws c = (code_of c \<in> {9, 10, 13, 32 :: nat})"

definition skip_ws :: "string \<Rightarrow> string" where
  "skip_ws s = dropWhile json_ws s"

definition is_hex :: "char \<Rightarrow> bool" where
  "is_hex c =
     (is_digit c \<or> (65 \<le> code_of c \<and> code_of c \<le> (70::nat))
      \<or> (97 \<le> code_of c \<and> code_of c \<le> (102::nat)))"

definition hex_val :: "char \<Rightarrow> nat" where
  "hex_val c =
     (if is_digit c then code_of c - 48
      else if code_of c \<le> (70::nat) then code_of c - 55 else code_of c - 87)"

text \<open>The UTF-8 bytes of the code unit of a \<open>\uXXXX\<close> escape.\<close>

definition utf8_of :: "nat \<Rightarrow> string" where
  "utf8_of n =
     (if n < 128 then [char_of n]
      else if n < 2048 then [char_of (192 + n div 64), char_of (128 + n mod 64)]
      else [char_of (224 + n div 4096), char_of (128 + (n div 64) mod 64),
            char_of (128 + n mod 64)])"

definition simple_escape :: "char \<Rightarrow> char option" where
  "simple_escape e =
     (if e = CHR 0x22 then Some (CHR 0x22)
      else if e = CHR 0x5C then Some (CHR 0x5C)
      else if e = CHR ''/'' then Some (CHR ''/'')
      else if e = CHR ''b'' then Some (CHR 0x08)
      else if e = CHR ''f'' then Some (CHR 0x0C)
      else if e = CHR ''n'' then Some (CHR 0x0A)
      else if e = CHR ''r'' then Some (CHR 0x0D)
      else if e = CHR ''t'' then Some (CHR 0x09)
      else None)"

text \<open>The rest of a string literal, after its opening quote.\<close>

fun lex_string :: "string \<Rightarrow> (string \<times> string) option" where
  "lex_string [] = None"
| "lex_string (c # cs) =
     (if c = CHR 0x22 then Some ([], cs)
      else if c = CHR 0x5C then
        (case cs of
           [] \<Rightarrow> None
         | e # es \<Rightarrow>
             if e = CHR ''u'' then
               (if 4 \<le> length es \<and> list_all is_hex (take 4 es) then
                  (case lex_string (drop 4 es) of
                     None \<Rightarrow> None
                   | Some (t, r) \<Rightarrow>
                       Some (utf8_of (foldl (\<lambda>a h. 16 * a + hex_val h) 0 (take 4 es)) @ t, r))
                else None)
             else
               (case simple_escape e of
                  None \<Rightarrow> None
                | Some d \<Rightarrow>
                    (case lex_string es of None \<Rightarrow> None | Some (t, r) \<Rightarrow> Some (d # t, r))))
      else if code_of c < (32::nat) then None
      else (case lex_string cs of None \<Rightarrow> None | Some (t, r) \<Rightarrow> Some (c # t, r)))"

text \<open>
  A number: an optional minus, an integer part without a leading zero, an optional
  fraction, an optional exponent.
\<close>

definition lex_digits :: "string \<Rightarrow> (string \<times> string) option" where
  "lex_digits s =
     (if takeWhile is_digit s = [] then None
      else Some (takeWhile is_digit s, dropWhile is_digit s))"

definition lex_int :: "string \<Rightarrow> (string \<times> string) option" where
  "lex_int s =
     (case s of
        [] \<Rightarrow> None
      | c # cs \<Rightarrow>
          if c = CHR ''0'' then Some ([c], cs)
          else lex_digits s)"

definition lex_frac :: "string \<Rightarrow> (string \<times> string) option" where
  "lex_frac s =
     (case s of
        [] \<Rightarrow> Some ([], [])
      | c # cs \<Rightarrow>
          if c = CHR ''.'' then
            (case lex_digits cs of None \<Rightarrow> None | Some (d, r) \<Rightarrow> Some (c # d, r))
          else Some ([], s))"

definition lex_exp :: "string \<Rightarrow> (string \<times> string) option" where
  "lex_exp s =
     (case s of
        [] \<Rightarrow> Some ([], [])
      | c # cs \<Rightarrow>
          if c = CHR ''e'' \<or> c = CHR ''E'' then
            (case cs of
               [] \<Rightarrow> None
             | g # gs \<Rightarrow>
                 if g = CHR ''+'' \<or> g = CHR ''-'' then
                   (case lex_digits gs of None \<Rightarrow> None | Some (d, r) \<Rightarrow> Some (c # g # d, r))
                 else
                   (case lex_digits cs of None \<Rightarrow> None | Some (d, r) \<Rightarrow> Some (c # d, r)))
          else Some ([], s))"

definition lex_number :: "string \<Rightarrow> (string \<times> string) option" where
  "lex_number s =
     (let (sign, s1) = (case s of
                          [] \<Rightarrow> ([], s)
                        | c # cs \<Rightarrow> if c = CHR ''-'' then ([c], cs) else ([], s))
      in case lex_int s1 of
           None \<Rightarrow> None
         | Some (i, s2) \<Rightarrow>
             (case lex_frac s2 of
                None \<Rightarrow> None
              | Some (f, s3) \<Rightarrow>
                  (case lex_exp s3 of
                     None \<Rightarrow> None
                   | Some (e, s4) \<Rightarrow> Some (sign @ i @ f @ e, s4))))"

fun parse_value :: "nat \<Rightarrow> string \<Rightarrow> (json \<times> string) option"
  and parse_elements :: "nat \<Rightarrow> string \<Rightarrow> (json list \<times> string) option"
  and parse_members :: "nat \<Rightarrow> string \<Rightarrow> ((string \<times> json) list \<times> string) option"
where
  "parse_value 0 s = None"
| "parse_value (Suc n) s =
     (case s of
        [] \<Rightarrow> None
      | c # cs \<Rightarrow>
          if c = CHR ''{'' then
            (if startsWith (skip_ws cs) ''}'' then Some (JObj [], tl (skip_ws cs))
             else (case parse_members n (skip_ws cs) of
                     None \<Rightarrow> None
                   | Some (ms, r) \<Rightarrow> Some (JObj ms, r)))
          else if c = CHR ''['' then
            (if startsWith (skip_ws cs) '']'' then Some (JArr [], tl (skip_ws cs))
             else (case parse_elements n (skip_ws cs) of
                     None \<Rightarrow> None
                   | Some (vs, r) \<Rightarrow> Some (JArr vs, r)))
          else if c = CHR 0x22 then
            (case lex_string cs of None \<Rightarrow> None | Some (t, r) \<Rightarrow> Some (JStr t, r))
          else if startsWith s ''true'' then Some (JBool True, drop 4 s)
          else if startsWith s ''false'' then Some (JBool False, drop 5 s)
          else if startsWith s ''null'' then Some (JNull, drop 4 s)
          else (case lex_number s of None \<Rightarrow> None | Some (t, r) \<Rightarrow> Some (JNum t, r)))"
| "parse_elements 0 s = None"
| "parse_elements (Suc n) s =
     (case parse_value n s of
        None \<Rightarrow> None
      | Some (v, r) \<Rightarrow>
          (case skip_ws r of
             [] \<Rightarrow> None
           | c # cs \<Rightarrow>
               if c = CHR '','' then
                 (case parse_elements n (skip_ws cs) of
                    None \<Rightarrow> None
                  | Some (vs, r') \<Rightarrow> Some (v # vs, r'))
               else if c = CHR '']'' then Some ([v], cs)
               else None))"
| "parse_members 0 s = None"
| "parse_members (Suc n) s =
     (case s of
        [] \<Rightarrow> None
      | q # qs \<Rightarrow>
          if q = CHR 0x22 then
            (case lex_string qs of
               None \<Rightarrow> None
             | Some (k, r) \<Rightarrow>
                 (case skip_ws r of
                    [] \<Rightarrow> None
                  | d # ds \<Rightarrow>
                      if d = CHR '':'' then
                        (case parse_value n (skip_ws ds) of
                           None \<Rightarrow> None
                         | Some (v, r') \<Rightarrow>
                             (case skip_ws r' of
                                [] \<Rightarrow> None
                              | c # cs \<Rightarrow>
                                  if c = CHR '','' then
                                    (case parse_members n (skip_ws cs) of
                                       None \<Rightarrow> None
                                     | Some (ms, r'') \<Rightarrow> Some ((k, v) # ms, r''))
                                  else if c = CHR ''}'' then Some ([(k, v)], cs)
                                  else None))
                      else None))
          else None)"

definition JSON_parse :: "string \<Rightarrow> json option" where
  "JSON_parse s =
     (case parse_value (2 * length s + 2) (skip_ws s) of
        None \<Rightarrow> None
      | Some (v, r) \<Rightarrow> if skip_ws r = [] then Some v else None)"

section \<open>Values of the runtime\<close>

text \<open>
  A value read from a parsed document is a \<^typ>\<open>json option\<close>, \<^term>\<open>None\<close> being
  \<open>undefined\<close>. A number is falsy when it is zero, that is, when every digit of its
  mantissa is \<open>0\<close>.
\<close>

definition num_is_zero :: "string \<Rightarrow> bool" where
  "num_is_zero t =
     list_all (\<lambda>c. c = CHR ''0'' \<or> \<not> is_digit c)
       (takeWhile (\<lambda>c. c \<noteq> CHR ''e'' \<and> c \<noteq> CHR ''E'') t)"

fun truthy :: "json \<Rightarrow> bool" where
  "truthy JNull = False"
| "truthy (JBool b) = b"
| "truthy (JNum t) = (\<not> num_is_zero t)"
| "truthy (JStr s) = (s \<noteq> [])"
| "truthy (JArr vs) = True"
| "truthy (JObj ms) = True"

definition truthy_opt :: "json option \<Rightarrow> bool" where
  "truthy_opt v = (case v of None \<Rightarrow> False | Some x \<Rightarrow> truthy x)"

text \<open>
  \<open>v.k\<close> for a receiver that is not \<open>null\<close> (on \<open>null\<close> the read throws a \<open>TypeError\<close>,
  which the callers below handle before they use \<open>get_member\<close>) and for the member names the
  source reads, none of which is a property of a prototype. Of two members with the same
  name the later one counts.
\<close>

fun get_member :: "json \<Rightarrow> string \<Rightarrow> json option" where
  "get_member (JObj ms) k = map_of (rev ms) k"
| "get_member v k = None"

definition nat_of_digits :: "string \<Rightarrow> nat" where
  "nat_of_digits k = foldl (\<lambda>a c. 10 * a + (code_of c - 48)) 0 k"

definition is_index :: "string \<Rightarrow> bool" where
  "is_index k =
     (k \<noteq> [] \<and> list_all is_digit k \<and> (k = ''0'' \<or> hd k \<noteq> CHR ''0'')
      \<and> nat_of_digits k < 4294967295)"

text \<open>
  \<open>Object.keys(v)\<close>: the array indices in ascending order, then the other names in the
  order in which they first appear.
\<close>

fun object_keys :: "json \<Rightarrow> string list" where
  "object_keys (JObj ms) =
     (let ks = rev (remdups (rev (map fst ms)))
      in sort_key nat_of_digits (filter is_index ks) @ filter (\<lambda>k. \<not> is_index k) ks)"
| "object_keys (JArr vs) = map digits_of [0..<length vs]"
| "object_keys (JStr s) = map digits_of [0..<length s]"
| "object_keys v = []"

text \<open>The own properties that \<open>Object.assign\<close> copies into an empty object.\<close>

fun own_entries :: "json \<Rightarrow> (string \<times> json) list" where
  "own_entries (JObj ms) =
     concat (map (\<lambda>k. case map_of (rev ms) k of None \<Rightarrow> [] | Some v \<Rightarrow> [(k, v)])
               (object_keys (JObj ms)))"
| "own_entries (JArr vs) = zip (map digits_of [0..<length vs]) vs"
| "own_entries (JStr s) = zip (map digits_of [0..<length s]) (map (\<lambda>c. JStr [c]) s)"
| "own_entries v = []"

text \<open>
  The text of a value inside a template literal. A number is printed with its text in
  the document.
\<close>

fun to_text :: "json \<Rightarrow> string" where
  "to_text JNull = ''null''"
| "to_text (JBool b) = (if b then ''true'' else ''false'')"
| "to_text (JNum t) = t"
| "to_text (JStr s) = s"
| "to_text (JArr vs) = join '','' (map (\<lambda>v. if v = JNull then [] else to_text v) vs)"
| "to_text (JObj ms) = ''[object Object]''"

text \<open>
  \<open>v.includes(t)\<close> for a truthy value \<open>v\<close>: a string searches for the run, an array for an
  element that is the string \<open>t\<close>; any other value has no such method, and the call
  throws (\<^term>\<open>None\<close>).
\<close>

fun js_includes :: "json \<Rightarrow> string \<Rightarrow> bool option" where
  "js_includes (JStr s) t = Some (str_includes s t)"
| "js_includes (JArr vs) t = Some (JStr t \<in> set vs)"
| "js_includes v t = None"

text \<open>
  What a \<open>try\<close> block that parses a manifest and then reads a member of it can throw: the
  \<open>SyntaxError\<close> of \<open>JSON.parse\<close>, and the \<open>TypeError\<close> of reading a member of \<open>null\<close>.
  No other value makes a member read throw.
\<close>

datatype thrown = SyntaxError | TypeError

definition parsed_manifest :: "string \<Rightarrow> thrown + json" where
  "parsed_manifest text =
     (case JSON_parse text of
        None \<Rightarrow> Inl SyntaxError
      | Some pkg \<Rightarrow> if pkg = JNull then Inl TypeError else Inr pkg)"

section \<open>The regular expressions of the source\<close>

text \<open>
  A global \<open>match\<close> scans from the left and resumes after each match. The scanners below
  carry the number of characters still covered by the last match.
\<close>

text \<open>\<open>/model\s+(\w+)/\<close> at the head of the text: the length of the match.\<close>

definition model_match :: "string \<Rightarrow> nat option" where
  "model_match s =
     (if startsWith s ''model'' then
        (let r = drop 5 s; w = dropWhile is_space r
         in if length w < length r \<and> takeWhile is_word w \<noteq> []
            then Some (5 + (length r - length w) + length (takeWhile is_word w))
            else None)
      else None)"

fun count_models :: "nat \<Rightarrow> string \<Rightarrow> nat" where
  "count_models k [] = 0"
| "count_models (Suc k) (c # cs) = count_models k cs"
| "count_models 0 (c # cs) =
     (case model_match (c # cs) of
        None \<Rightarrow> count_models 0 cs
      | Some n \<Rightarrow> Suc (count_models (n - 1) cs))"

text \<open>
  \<open>/[-*\<bullet>]\s*([^\n]+)/\<close> at the head of the text, the bullet being one of \<open>-\<close>, \<open>*\<close> and
  U+2022: the match. \<open>\s*\<close> takes the longest run of white space after which a character
  other than a line feed is left for the group.
\<close>

definition bullet :: string where
  "bullet = [CHR 0xE2, CHR 0x80, CHR 0xA2]"

definition after_bullet :: "string \<Rightarrow> string option" where
  "after_bullet s =
     (if startsWith s ''-'' \<or> startsWith s ''*'' then Some (drop 1 s)
      else if startsWith s bullet then Some (drop 3 s)
      else None)"

fun group_start :: "string \<Rightarrow> nat option" where
  "group_start [] = None"
| "group_start (c # cs) =
     (if is_space c then
        (case group_start cs of
           Some n \<Rightarrow> Some (Suc n)
         | None \<Rightarrow> if c \<noteq> CHR 0x0A then Some 0 else None)
      else Some 0)"

definition bullet_match :: "string \<Rightarrow> string option" where
  "bullet_match s =
     (case after_bullet s of
        None \<Rightarrow> None
      | Some r \<Rightarrow>
          (case group_start r of
             None \<Rightarrow> None
           | Some n \<Rightarrow>
               Some (take (length s - length r) s @ take n r
                     @ takeWhile (\<lambda>c. c \<noteq> CHR 0x0A) (drop n r))))"

fun bullet_matches :: "nat \<Rightarrow> string \<Rightarrow> string list" where
  "bullet_matches k [] = []"
| "bullet_matches (Suc k) (c # cs) = bullet_matches k cs"
| "bullet_matches 0 (c # cs) =
     (case bullet_match (c # cs) of
        None \<Rightarrow> bullet_matches 0 cs
      | Some m \<Rightarrow> m # bullet_matches (length m - 1) cs)"

text \<open>\<open>m.replace(/[-*\<bullet>]\s*/, '').trim()\<close> on a match \<open>m\<close>, which starts with its bullet.\<close>

definition strip_bullet :: "string \<Rightarrow> string" where
  "strip_bullet m =
     trim (case after_bullet m of None \<Rightarrow> m | Some r \<Rightarrow> dropWhile is_space r)"

text \<open>
  The fenced block with a setup command, matched without regard to case: three
  backquotes, lazily up to the first of the five commands, lazily up to the next three
  backquotes.
\<close>

definition setup_commands :: "string list" where
  "setup_commands = [''npm install'', ''pip install'', ''yarn'', ''go get'', ''cargo build'']"

fun after_first :: "string list \<Rightarrow> string \<Rightarrow> string option" where
  "after_first ps [] = None"
| "after_first ps (c # cs) =
     (case filter (startsWith (c # cs)) ps of
        p # qs \<Rightarrow> Some (drop (length p) (c # cs))
      | [] \<Rightarrow> after_first ps cs)"

definition block_match :: "string \<Rightarrow> nat option" where
  "block_match s =
     (if startsWith s ''```'' then
        (case after_first setup_commands (toLowerCase (drop 3 s)) of
           None \<Rightarrow> None
         | Some r \<Rightarrow>
             (case after_first [''```''] r of
                None \<Rightarrow> None
              | Some r' \<Rightarrow> Some (length s - length r')))
      else None)"

fun count_blocks :: "nat \<Rightarrow> string \<Rightarrow> nat" where
  "count_blocks k [] = 0"
| "count_blocks (Suc k) (c # cs) = count_blocks k cs"
| "count_blocks 0 (c # cs) =
     (case block_match (c # cs) of
        None \<Rightarrow> count_blocks 0 cs
      | Some n \<Rightarrow> Suc (count_blocks (n - 1) cs))"

section \<open>The heuristic analyzer (\<open>DeepRepositoryAnalyzer\<close>)\<close>

datatype file_kind = Config | Documentation | Code | Test | Build

record FileAnalysis =
  filename :: string
  fa_content :: string
  fa_type :: file_kind
  fa_language :: "string option"
  fa_insights :: "string list"

record ProjectStructure =
  framework :: string
  language :: string
  buildSystem :: string
  testFramework :: "string option"
  dependencies :: "(string \<times> json) list"
  scripts :: "(string \<times> json) list"
  architecture :: string

definition analyzeReadme :: "string \<Rightarrow> string list" where
  "analyzeReadme content =
     (let lines = toLowerCase content
      in (if str_includes lines ''installation'' \<or> str_includes lines ''install''
          then [''Contains installation instructions''] else [])
       @ (if str_includes lines ''getting started'' \<or> str_includes lines ''quick start''
          then [''Includes getting started guide''] else [])
       @ (if str_includes lines ''api'' \<or> str_includes lines ''documentation''
          then [''Has API or documentation references''] else [])
       @ (if str_includes lines ''contributing'' \<or> str_includes lines ''contribute''
          then [''Includes contribution guidelines''] else [])
       @ (if str_includes lines ''license'' then [''Contains license information''] else [])
       @ (if str_includes lines ''demo'' \<or> str_includes lines ''example''
          then [''Provides examples or demos''] else [])
       @ (if 0 < count_blocks 0 content
          then [''Found '' @ digits_of (count_blocks 0 content) @ '' setup command blocks'']
          else []))"

text \<open>
  Inside the \<open>try\<close> of \<open>analyzePackageJson\<close> the two throws come before any insight is
  pushed; the \<open>catch\<close> pushes one.
\<close>

definition analyzePackageJson :: "string \<Rightarrow> string list" where
  "analyzePackageJson content =
     (case parsed_manifest content of
        Inl e \<Rightarrow> [''Invalid package.json format'']
      | Inr pkg \<Rightarrow>
            (case get_member pkg ''scripts'' of
               None \<Rightarrow> []
             | Some sc \<Rightarrow>
                 if truthy sc then
                   [''Available scripts: '' @ join '', '' (object_keys sc)]
                   @ (if truthy_opt (get_member sc ''dev'') \<or> truthy_opt (get_member sc ''start'')
                      then [''Has development server scripts''] else [])
                   @ (if truthy_opt (get_member sc ''build'') then [''Has build script''] else [])
                   @ (if truthy_opt (get_member sc ''test'') then [''Has test script''] else [])
                 else [])
          @ (case get_member pkg ''dependencies'' of
               None \<Rightarrow> []
             | Some ds \<Rightarrow>
                 if truthy ds then
                   [digits_of (length (object_keys ds)) @ '' production dependencies'']
                   @ (if truthy_opt (get_member ds ''react'') then [''React application''] else [])
                   @ (if truthy_opt (get_member ds ''vue'') then [''Vue.js application''] else [])
                   @ (if truthy_opt (get_member ds ''angular'') then [''Angular application'']
                      else [])
                   @ (if truthy_opt (get_member ds ''next'') then [''Next.js application''] else [])
                   @ (if truthy_opt (get_member ds ''express'') then [''Express.js server''] else [])
                   @ (if truthy_opt (get_member ds ''fastify'') then [''Fastify server''] else [])
                 else [])
          @ (case get_member pkg ''devDependencies'' of
               None \<Rightarrow> []
             | Some dv \<Rightarrow>
                 if truthy dv then
                   [digits_of (length (object_keys dv)) @ '' development dependencies'']
                   @ (if truthy_opt (get_member dv ''typescript'') then [''TypeScript project'']
                      else [])
                   @ (if truthy_opt (get_member dv ''jest'') then [''Uses Jest for testing'']
                      else [])
                   @ (if truthy_opt (get_member dv ''cypress'')
                      then [''Uses Cypress for E2E testing''] else [])
                   @ (if truthy_opt (get_member dv ''webpack'')
                      then [''Uses Webpack for bundling''] else [])
                   @ (if truthy_opt (get_member dv ''vite'') then [''Uses Vite for bundling'']
                      else [])
                 else [])
          @ (case get_member pkg ''engines'' of
               None \<Rightarrow> []
             | Some en \<Rightarrow>
                 if truthy en then
                   [''Node.js version requirement: ''
                    @ (case get_member en ''node'' of
                         None \<Rightarrow> ''not specified''
                       | Some v \<Rightarrow> if truthy v then to_text v else ''not specified'')]
                 else []))"

definition analyzePythonRequirements :: "string \<Rightarrow> string list" where
  "analyzePythonRequirements content =
     (let lines = filter (\<lambda>line. trim line \<noteq> [] \<and> \<not> startsWith line ''#'')
                    (split_on (CHR 0x0A) content);
          frameworks = filter (\<lambda>line. str_includes line ''django'' \<or> str_includes line ''flask''
                                 \<or> str_includes line ''fastapi'' \<or> str_includes line ''tornado''
                                 \<or> str_includes line ''pyramid'') lines
      in [digits_of (length lines) @ '' Python dependencies'']
         @ (if 0 < length frameworks
            then [''Python web frameworks: '' @ join '', '' frameworks] else []))"

definition analyzeDockerfile :: "string \<Rightarrow> string list" where
  "analyzeDockerfile content =
     (let lines = toLowerCase content
      in (if str_includes lines ''from node'' then [''Node.js Docker container''] else [])
       @ (if str_includes lines ''from python'' then [''Python Docker container''] else [])
       @ (if str_includes lines ''from nginx'' then [''Nginx web server''] else [])
       @ (if str_includes lines ''expose'' then [''Exposes network ports''] else [])
       @ (if str_includes lines ''volume'' then [''Uses Docker volumes''] else [])
       @ (if str_includes lines ''multi-stage'' then [''Multi-stage Docker build''] else []))"

definition analyzeTestConfig :: "string \<Rightarrow> string list" where
  "analyzeTestConfig content =
     (let lines = toLowerCase content
      in (if str_includes lines ''jest'' then [''Jest testing framework''] else [])
       @ (if str_includes lines ''mocha'' then [''Mocha testing framework''] else [])
       @ (if str_includes lines ''cypress'' then [''Cypress E2E testing''] else [])
       @ (if str_includes lines ''playwright'' then [''Playwright testing''] else [])
       @ (if str_includes lines ''coverage'' then [''Code coverage configured''] else []))"

definition analyzeConfigFile :: "string \<Rightarrow> string \<Rightarrow> string list" where
  "analyzeConfigFile fname content =
     (if str_includes fname ''typescript'' \<or> str_includes fname ''tsconfig''
      then [''TypeScript configuration''] else [])
     @ (if str_includes fname ''webpack'' then [''Webpack bundler configuration''] else [])
     @ (if str_includes fname ''vite'' then [''Vite build tool configuration''] else [])"

definition analyzeFile :: "string \<Rightarrow> string \<Rightarrow> FileAnalysis" where
  "analyzeFile fname content =
     (let (t, l, ins) =
        (if str_includes (toLowerCase fname) ''readme''
           then (Documentation, None, analyzeReadme content)
         else if fname = ''package.json''
           then (Config, Some ''json'', analyzePackageJson content)
         else if fname = ''requirements.txt''
           then (Config, None, analyzePythonRequirements content)
         else if str_includes fname ''docker''
           then (Build, None, analyzeDockerfile content)
         else if str_includes fname ''test'' \<or> str_includes fname ''spec''
           then (Test, None, analyzeTestConfig content)
         else if str_includes fname ''config'' \<or> str_includes fname ''.json''
           then (Config, None, analyzeConfigFile fname content)
         else (Code, None, []))
      in \<lparr>filename = fname, fa_content = take 1000 content, fa_type = t,
          fa_language = l, fa_insights = ins\<rparr>)"

text \<open>
  \<open>analyzeProjectStructure\<close> assigns to its local variables step by step inside a \<open>try\<close>
  whose \<open>catch\<close> is empty: what was assigned before a throw stays. The steps are the
  functions below, on the record of the variables; a step that throws returns the record
  it had reached, marked \<^term>\<open>Inl\<close>. The language is assigned between \<open>JSON.parse\<close> and the
  first read of a member.
\<close>

definition initial_structure :: ProjectStructure where
  "initial_structure =
     \<lparr>framework = ''Unknown'', language = ''Unknown'', buildSystem = ''Unknown'',
      testFramework = None, dependencies = [], scripts = [], architecture = ''Unknown''\<rparr>"

definition dependencies_step :: "json \<Rightarrow> ProjectStructure \<Rightarrow> ProjectStructure" where
  "dependencies_step pkg st =
     (case get_member pkg ''dependencies'' of
        None \<Rightarrow> st
      | Some ds \<Rightarrow>
          if truthy ds then
            (let st1 = st\<lparr>dependencies := own_entries ds\<rparr>
             in if truthy_opt (get_member ds ''react'') then st1\<lparr>framework := ''React''\<rparr>
                else if truthy_opt (get_member ds ''vue'') then st1\<lparr>framework := ''Vue.js''\<rparr>
                else if truthy_opt (get_member ds ''angular'') then st1\<lparr>framework := ''Angular''\<rparr>
                else if truthy_opt (get_member ds ''next'') then st1\<lparr>framework := ''Next.js''\<rparr>
                else if truthy_opt (get_member ds ''express'')
                  then st1\<lparr>framework := ''Express.js''\<rparr>
                else if truthy_opt (get_member ds ''fastify'') then st1\<lparr>framework := ''Fastify''\<rparr>
                else st1)
          else st)"

definition scripts_step :: "json \<Rightarrow> ProjectStructure \<Rightarrow> ProjectStructure + ProjectStructure"
  where
  "scripts_step pkg st =
     (case get_member pkg ''scripts'' of
        None \<Rightarrow> Inr st
      | Some sc \<Rightarrow>
          if truthy sc then
            (let st1 = st\<lparr>scripts := own_entries sc\<rparr>
             in case get_member sc ''build'' of
                  None \<Rightarrow> Inr st1
                | Some b \<Rightarrow>
                    if truthy b then
                      (case js_includes b ''webpack'' of
                         None \<Rightarrow> Inl st1
                       | Some True \<Rightarrow> Inr (st1\<lparr>buildSystem := ''Webpack''\<rparr>)
                       | Some False \<Rightarrow>
                           (case js_includes b ''vite'' of
                              None \<Rightarrow> Inl st1
                            | Some True \<Rightarrow> Inr (st1\<lparr>buildSystem := ''Vite''\<rparr>)
                            | Some False \<Rightarrow> Inr (st1\<lparr>buildSystem := ''Custom''\<rparr>)))
                    else Inr st1)
          else Inr st)"

definition devDependencies_step :: "json \<Rightarrow> ProjectStructure \<Rightarrow> ProjectStructure" where
  "devDependencies_step pkg st =
     (case get_member pkg ''devDependencies'' of
        None \<Rightarrow> st
      | Some dv \<Rightarrow>
          if truthy dv then
            (if truthy_opt (get_member dv ''jest'') then st\<lparr>testFramework := Some ''Jest''\<rparr>
             else if truthy_opt (get_member dv ''mocha'') then st\<lparr>testFramework := Some ''Mocha''\<rparr>
             else if truthy_opt (get_member dv ''cypress'')
               then st\<lparr>testFramework := Some ''Cypress''\<rparr>
             else st)
          else st)"

definition package_step :: "FileAnalysis list \<Rightarrow> ProjectStructure \<Rightarrow> ProjectStructure" where
  "package_step keyFiles st =
     (case find (\<lambda>f. filename f = ''package.json'') keyFiles of
        None \<Rightarrow> st
      | Some packageJson \<Rightarrow>
          (case parsed_manifest (fa_content packageJson) of
             Inl SyntaxError \<Rightarrow> st
           | Inl TypeError \<Rightarrow> st\<lparr>language := ''JavaScript/TypeScript''\<rparr>
           | Inr pkg \<Rightarrow>
               (case scripts_step pkg
                       (dependencies_step pkg (st\<lparr>language := ''JavaScript/TypeScript''\<rparr>)) of
                  Inl st2 \<Rightarrow> st2
                | Inr st2 \<Rightarrow> devDependencies_step pkg st2)))"

definition requirements_step :: "FileAnalysis list \<Rightarrow> ProjectStructure \<Rightarrow> ProjectStructure"
  where
  "requirements_step keyFiles st =
     (case find (\<lambda>f. filename f = ''requirements.txt'') keyFiles of
        None \<Rightarrow> st
      | Some requirements \<Rightarrow>
          (let st1 = st\<lparr>language := ''Python''\<rparr>;
               lines = split_on (CHR 0x0A) (fa_content requirements)
           in if list_ex (\<lambda>line. str_includes line ''django'') lines
                then st1\<lparr>framework := ''Django''\<rparr>
              else if list_ex (\<lambda>line. str_includes line ''flask'') lines
                then st1\<lparr>framework := ''Flask''\<rparr>
              else if list_ex (\<lambda>line. str_includes line ''fastapi'') lines
                then st1\<lparr>framework := ''FastAPI''\<rparr>
              else st1))"

definition architecture_step :: "FileAnalysis list \<Rightarrow> ProjectStructure \<Rightarrow> ProjectStructure"
  where
  "architecture_step keyFiles st =
     (if list_ex (\<lambda>f. str_includes (filename f) ''docker'') keyFiles
        then st\<lparr>architecture := ''Containerized''\<rparr>
      else if str_includes (framework st) ''Next.js'' \<or> str_includes (framework st) ''React''
        then st\<lparr>architecture := ''Single Page Application''\<rparr>
      else if str_includes (framework st) ''Express'' \<or> str_includes (framework st) ''FastAPI''
        then st\<lparr>architecture := ''API Server''\<rparr>
      else st)"

definition analyzeProjectStructure :: "FileAnalysis list \<Rightarrow> ProjectStructure" where
  "analyzeProjectStructure keyFiles =
     architecture_step keyFiles
       (requirements_step keyFiles (package_step keyFiles initial_structure))"

section \<open>The hosting API client (\<open>GitHubService\<close>)\<close>

text \<open>
  The replies of the remote API to the calls of one gathering pass are the environment
  of the model. A call either fails, with the kind of failure the API reported, or
  returns its data. Data that the pipeline only passes on is kept as a \<^typ>\<open>json\<close> value.
\<close>

datatype api_failure = NotFound | Unauthorized | RateLimited | OtherFailure

datatype js_error = Error string

fun message :: "js_error \<Rightarrow> string" where
  "message (Error m) = m"

record repo_data =
  repo_language :: "string option"
  repo_description :: "string option"

record tree_item =
  item_path :: string
  item_type :: string
  item_size :: "nat option"

datatype content_reply = FileData string | NotAFile | Failed api_failure

record github =
  repos_get :: "api_failure + repo_data"
  listLanguages :: "api_failure + json"
  listContributors :: "api_failure + json"
  listCommits :: "api_failure + json"
  getCodeFrequencyStats :: "api_failure + json"
  getParticipationStats :: "api_failure + json"
  getPunchCardStats_reply :: "api_failure + json"
  listReleases :: "api_failure + json"
  listDeployments :: "api_failure + json"
  getViews :: "api_failure + json"
  getClones :: "api_failure + json"
  getTopReferrers :: "api_failure + json"
  getTopPaths :: "api_failure + json"
  getTree :: "api_failure + tree_item list"
  getContent :: "string \<Rightarrow> content_reply"

record repo_details =
  repo :: repo_data
  languages :: json
  contributors :: json
  recentCommits :: json

record repo_analytics =
  details :: repo_details
  analytics_of :: json

text \<open>\<open>Promise.all\<close> of the four calls rejects as soon as one of them does.\<close>

definition getRepoDetails :: "github \<Rightarrow> js_error + repo_details" where
  "getRepoDetails g =
     (case (repos_get g, listLanguages g, listContributors g, listCommits g) of
        (Inr r, Inr l, Inr c, Inr m) \<Rightarrow>
          Inr \<lparr>repo = r, languages = l, contributors = c, recentCommits = m\<rparr>
      | _ \<Rightarrow> Inl (Error ''Failed to fetch repository details''))"

text \<open>A call whose failure is caught and replaced by a default.\<close>

definition or_default :: "json \<Rightarrow> api_failure + json \<Rightarrow> json" where
  "or_default d r = (case r of Inl e \<Rightarrow> d | Inr v \<Rightarrow> v)"

definition getCodeFrequency :: "github \<Rightarrow> json" where
  "getCodeFrequency g = or_default (JArr []) (getCodeFrequencyStats g)"

definition getParticipation :: "github \<Rightarrow> json" where
  "getParticipation g =
     or_default (JObj [(''all'', JArr []), (''owner'', JArr [])]) (getParticipationStats g)"

definition getPunchCardStats :: "github \<Rightarrow> json" where
  "getPunchCardStats g = or_default (JArr []) (getPunchCardStats_reply g)"

definition getReleases :: "github \<Rightarrow> json" where
  "getReleases g = or_default (JArr []) (listReleases g)"

definition getDeployments :: "github \<Rightarrow> json" where
  "getDeployments g = or_default (JArr []) (listDeployments g)"

definition empty_counts :: "string \<Rightarrow> json" where
  "empty_counts k = JObj [(''count'', JNum ''0''), (''uniques'', JNum ''0''), (k, JArr [])]"

definition getTrafficStats :: "github \<Rightarrow> json" where
  "getTrafficStats g =
     JObj [(''views'', or_default (empty_counts ''views'') (getViews g)),
           (''clones'', or_default (empty_counts ''clones'') (getClones g)),
           (''referrers'', or_default (JArr []) (getTopReferrers g)),
           (''paths'', or_default (JArr []) (getTopPaths g))]"

definition getComprehensiveRepoAnalytics :: "github \<Rightarrow> js_error + repo_analytics" where
  "getComprehensiveRepoAnalytics g =
     (case getRepoDetails g of
        Inl e \<Rightarrow> Inl (Error ''Failed to fetch comprehensive analytics'')
      | Inr d \<Rightarrow>
          Inr \<lparr>details = d,
               analytics_of =
                 JObj [(''codeFrequency'', getCodeFrequency g),
                       (''participation'', getParticipation g),
                       (''punchCard'', getPunchCardStats g),
                       (''releases'', getReleases g),
                       (''deployments'', getDeployments g),
                       (''traffic'', getTrafficStats g)]\<rparr>)"

definition getRepositoryTree :: "github \<Rightarrow> js_error + tree_item list" where
  "getRepositoryTree g =
     (case getTree g of
        Inl e \<Rightarrow> Inl (Error ''Failed to fetch repository tree'')
      | Inr t \<Rightarrow> Inr t)"

text \<open>
  \<open>getFileContent\<close> catches every failure of the call and returns \<open>null\<close>, as it does for
  a reply that is not a file.
\<close>

definition getFileContent :: "github \<Rightarrow> string \<Rightarrow> string option" where
  "getFileContent g p =
     (case getContent g p of
        FileData c \<Rightarrow> Some c
      | NotAFile \<Rightarrow> None
      | Failed e \<Rightarrow> None)"

section \<open>The onboarding service (\<open>RepositoryOnboardingService\<close>)\<close>

subsection \<open>Gathering\<close>

record KeyFile =
  path :: string
  content :: string
  type :: string
  insights :: "string list"

record code_item =
  code_path :: string
  code_type :: string
  code_size :: nat
  code_language :: string

record RepositoryAnalysisData =
  repository :: repo_analytics
  analytics :: json
  codeStructure :: "code_item list"
  keyFiles :: "KeyFile list"

definition languageMap :: "(string \<times> string) list" where
  "languageMap =
     [(''js'', ''JavaScript''), (''jsx'', ''React''), (''ts'', ''TypeScript''),
      (''tsx'', ''React TypeScript''), (''py'', ''Python''), (''java'', ''Java''),
      (''cpp'', ''C++''), (''c'', ''C''), (''cs'', ''C#''), (''php'', ''PHP''),
      (''rb'', ''Ruby''), (''go'', ''Go''), (''rs'', ''Rust''), (''swift'', ''Swift''),
      (''kt'', ''Kotlin''), (''dart'', ''Dart''), (''vue'', ''Vue.js''), (''html'', ''HTML''),
      (''css'', ''CSS''), (''scss'', ''SCSS''), (''less'', ''LESS''), (''json'', ''JSON''),
      (''xml'', ''XML''), (''yaml'', ''YAML''), (''yml'', ''YAML''), (''md'', ''Markdown''),
      (''sql'', ''SQL'')]"

text \<open>
  The extension is the text after the last dot, or the whole name when there is none.
  (An extension that names a property of \<open>Object.prototype\<close> is outside the model.)
\<close>

definition detectLanguage :: "string \<Rightarrow> string" where
  "detectLanguage fname =
     (case map_of languageMap (toLowerCase (last (split_on (CHR ''.'') fname))) of
        None \<Rightarrow> ''Unknown''
      | Some l \<Rightarrow> l)"

definition analyzeCodeStructure :: "tree_item list \<Rightarrow> code_item list" where
  "analyzeCodeStructure tree =
     map (\<lambda>item. \<lparr>code_path = item_path item, code_type = item_type item,
                   code_size = (case item_size item of None \<Rightarrow> 0 | Some n \<Rightarrow> n),
                   code_language = detectLanguage (item_path item)\<rparr>) tree"

definition keyFileNames :: "string list" where
  "keyFileNames =
     [''README.md'', ''README.rst'', ''README.txt'',
      ''package.json'', ''requirements.txt'', ''Gemfile'', ''go.mod'', ''Cargo.toml'',
      ''dockerfile'', ''Dockerfile'', ''docker-compose.yml'',
      ''tsconfig.json'', ''webpack.config.js'', ''vite.config.js'',
      ''.env.example'', ''.env.template'',
      ''CONTRIBUTING.md'', ''LICENSE'', ''CHANGELOG.md'',
      ''prisma/schema.prisma'', ''schema.prisma'']"

definition getFileType :: "string \<Rightarrow> string" where
  "getFileType fname =
     (let name = toLowerCase fname
      in if str_includes name ''readme'' then ''documentation''
         else if str_includes name ''package.json'' \<or> str_includes name ''requirements''
                 \<or> str_includes name ''gemfile'' then ''dependencies''
         else if str_includes name ''docker'' then ''containerization''
         else if str_includes name ''config'' \<or> str_includes name ''tsconfig''
                 \<or> str_includes name ''webpack'' then ''configuration''
         else if str_includes name ''test'' \<or> str_includes name ''spec'' then ''testing''
         else if str_includes name ''contributing'' \<or> str_includes name ''license''
                 \<or> str_includes name ''changelog'' then ''project_info''
         else if str_includes name ''schema.prisma'' then ''database_schema''
         else ''code'')"

text \<open>
  In \<open>analyzeFileContent\<close> the \<open>try\<close> around the manifest holds the two operations that can
  throw, both before anything is pushed; its \<open>catch\<close> pushes the one insight.
\<close>

definition manifest_insights :: "string \<Rightarrow> string list" where
  "manifest_insights text =
     (case parsed_manifest text of
        Inl e \<Rightarrow> [''Contains package configuration'']
      | Inr pkg \<Rightarrow>
            (case get_member pkg ''scripts'' of
               None \<Rightarrow> []
             | Some sc \<Rightarrow>
                 if truthy sc then [''Available scripts: '' @ join '', '' (object_keys sc)]
                 else [])
          @ (case get_member pkg ''dependencies'' of
               None \<Rightarrow> []
             | Some ds \<Rightarrow>
                 if truthy ds then [digits_of (length (object_keys ds)) @ '' dependencies'']
                 else []))"

definition analyzeFileContent :: "string \<Rightarrow> string \<Rightarrow> string list" where
  "analyzeFileContent fname text =
     (let lowerContent = toLowerCase text
      in (if str_includes (toLowerCase fname) ''readme'' then
            (if str_includes lowerContent ''installation''
             then [''Contains installation instructions''] else [])
            @ (if str_includes lowerContent ''getting started''
               then [''Has getting started guide''] else [])
            @ (if str_includes lowerContent ''api'' then [''Includes API documentation''] else [])
            @ (if str_includes lowerContent ''example'' then [''Provides examples''] else [])
            @ (if str_includes lowerContent ''demo'' then [''Has demo information''] else [])
          else [])
       @ (if fname = ''package.json'' then manifest_insights text else [])
       @ (if str_includes fname ''schema.prisma'' then
            [''Prisma database schema'']
            @ (if 0 < count_models 0 text
               then [''Database models: '' @ digits_of (count_models 0 text)] else [])
          else []))"

text \<open>
  The loop of \<open>getKeyFiles\<close> over the tree. \<open>fileData?.content || ''\<close> is the text of the
  file, or the empty text when the fetch returned \<open>null\<close>. The stored content is cut to
  2000 characters; the insights are computed from the whole text. Nothing in the body
  of the \<open>try\<close> throws, so its \<open>catch\<close> is never entered.
\<close>

definition is_key_file :: "tree_item \<Rightarrow> bool" where
  "is_key_file item =
     list_ex (\<lambda>name. str_includes (toLowerCase (item_path item)) (toLowerCase name))
       keyFileNames"

definition classify :: "string \<Rightarrow> string \<Rightarrow> KeyFile" where
  "classify p text =
     \<lparr>path = p, content = take 2000 text, type = getFileType p,
      insights = analyzeFileContent p text\<rparr>"

definition key_file_of :: "github \<Rightarrow> tree_item \<Rightarrow> KeyFile" where
  "key_file_of g item =
     classify (item_path item)
       (case getFileContent g (item_path item) of None \<Rightarrow> [] | Some c \<Rightarrow> c)"

fun getKeyFiles :: "github \<Rightarrow> tree_item list \<Rightarrow> KeyFile list" where
  "getKeyFiles g [] = []"
| "getKeyFiles g (item # tree) =
     (if is_key_file item then key_file_of g item # getKeyFiles g tree
      else getKeyFiles g tree)"

definition gatherRepositoryData :: "github \<Rightarrow> js_error + RepositoryAnalysisData" where
  "gatherRepositoryData g =
     (case getComprehensiveRepoAnalytics g of
        Inl e \<Rightarrow> Inl e
      | Inr r \<Rightarrow>
          (case getRepositoryTree g of
             Inl e \<Rightarrow> Inl e
           | Inr tree \<Rightarrow>
               Inr \<lparr>repository = r, analytics = analytics_of r,
                    codeStructure = analyzeCodeStructure tree,
                    keyFiles = getKeyFiles g tree\<rparr>))"

subsection \<open>The AI analysis\<close>

record content_block =
  block_type :: string
  block_text :: "string option"

record SDKMessage =
  msg_type :: string
  msg_content :: "content_block list option"

record ClaudeAnalysis =
  codeAnalysis :: string
  dataModel :: string
  architectureText :: string
  features :: "string list"
  setupInstructions :: string
  keyInsights :: "string list"

text \<open>The texts that the two loops of \<open>extractClaudeInsights\<close> visit, in order.\<close>

definition assistant_texts :: "SDKMessage list \<Rightarrow> string list" where
  "assistant_texts messages =
     concat (map (\<lambda>msg.
        if msg_type msg = ''assistant'' then
          (case msg_content msg of
             None \<Rightarrow> []
           | Some blocks \<Rightarrow>
               concat (map (\<lambda>b.
                  if block_type b = ''text'' then
                    (case block_text b of
                       None \<Rightarrow> []
                     | Some t \<Rightarrow> if t = [] then [] else [t])
                  else []) blocks))
        else []) messages)"

definition mentions :: "string list \<Rightarrow> string \<Rightarrow> bool" where
  "mentions ws t = list_ex (str_includes (toLowerCase t)) ws"

definition gathered :: "string list \<Rightarrow> string" where
  "gathered ts = concat (map (\<lambda>t. t @ [CHR 0x0A]) ts)"

definition bullets_of :: "string \<Rightarrow> string list" where
  "bullets_of t = map strip_bullet (bullet_matches 0 t)"

definition extractClaudeInsights :: "SDKMessage list \<Rightarrow> ClaudeAnalysis" where
  "extractClaudeInsights messages =
     (let ts = assistant_texts messages;
          code = gathered ts;
          model = gathered (filter (mentions [''data model'', ''database'', ''schema'']) ts);
          arch = gathered (filter (mentions [''architecture'', ''pattern'']) ts);
          feats = concat (map bullets_of (filter (mentions [''feature'', ''capability'']) ts));
          setup = gathered (filter (mentions [''setup'', ''install'']) ts);
          keys = concat (map bullets_of (filter (mentions [''insight'', ''important'']) ts))
      in \<lparr>codeAnalysis = (if code = [] then ''Code analysis completed'' else code),
          dataModel = (if model = [] then ''No specific data model detected'' else model),
          architectureText = (if arch = [] then ''Architecture analysis completed'' else arch),
          features = (if 0 < length feats then feats else [''Application features detected'']),
          setupInstructions =
            (if setup = [] then ''Standard development setup required'' else setup),
          keyInsights =
            (if 0 < length keys then keys else [''Comprehensive analysis completed''])\<rparr>)"

text \<open>
  The reply of the AI service to the one query of a run: its messages, a failure thrown
  into the \<open>for await\<close> loop, or nothing at all. The source creates an \<open>AbortController\<close>
  for the query and never aborts it, and sets no timer: the loop waits for as long as
  the service takes, so for a service that never answers the call never returns
  (\<^term>\<open>None\<close>).
\<close>

datatype ai_reply = AiMessages "SDKMessage list" | AiThrows | AiNeverReturns

definition unavailable_analysis :: ClaudeAnalysis where
  "unavailable_analysis =
     \<lparr>codeAnalysis = ''Claude analysis unavailable - using GitHub API data only'',
      dataModel = ''Data model analysis unavailable'',
      architectureText = ''Architecture analysis unavailable'',
      features = [],
      setupInstructions = ''Standard setup required'',
      keyInsights = [''Analysis limited - Claude SDK unavailable'']\<rparr>"

definition performClaudeCodeAnalysis :: "ai_reply \<Rightarrow> ClaudeAnalysis option" where
  "performClaudeCodeAnalysis ai =
     (case ai of
        AiMessages messages \<Rightarrow> Some (extractClaudeInsights messages)
      | AiThrows \<Rightarrow> Some unavailable_analysis
      | AiNeverReturns \<Rightarrow> None)"

subsection \<open>Recommendations\<close>

definition emoji_robot :: string where
  "emoji_robot = [CHR 0xF0, CHR 0x9F, CHR 0xA4, CHR 0x96]"

definition emoji_rocket :: string where
  "emoji_rocket = [CHR 0xF0, CHR 0x9F, CHR 0x9A, CHR 0x80]"

definition emoji_cabinet :: string where
  "emoji_cabinet = [CHR 0xF0, CHR 0x9F, CHR 0x97, CHR 0x84, CHR 0xEF, CHR 0xB8, CHR 0x8F]"

definition emoji_target :: string where
  "emoji_target = [CHR 0xF0, CHR 0x9F, CHR 0x8E, CHR 0xAF]"

definition emoji_clipboard :: string where
  "emoji_clipboard = [CHR 0xF0, CHR 0x9F, CHR 0x93, CHR 0x8B]"

text \<open>
  In \<open>detectFramework\<close> the manifest that is parsed is the stored content of the key
  file, that is, its first 2000 characters. A throw inside the \<open>try\<close> falls through to
  the requirements file.
\<close>

definition manifest_framework :: "KeyFile list \<Rightarrow> string option" where
  "manifest_framework kfs =
     (case find (\<lambda>f. path f = ''package.json'') kfs of
        None \<Rightarrow> None
      | Some packageJson \<Rightarrow>
          if content packageJson = [] then None
          else
            (case parsed_manifest (content packageJson) of
               Inl e \<Rightarrow> None
             | Inr pkg \<Rightarrow>
                   (case get_member pkg ''dependencies'' of
                      None \<Rightarrow> None
                    | Some ds \<Rightarrow>
                        if truthy ds then
                          (if truthy_opt (get_member ds ''react'') then Some ''React''
                           else if truthy_opt (get_member ds ''vue'') then Some ''Vue.js''
                           else if truthy_opt (get_member ds ''angular'') then Some ''Angular''
                           else if truthy_opt (get_member ds ''next'') then Some ''Next.js''
                           else if truthy_opt (get_member ds ''express'') then Some ''Express.js''
                           else if truthy_opt (get_member ds ''fastify'') then Some ''Fastify''
                           else None)
                        else None)))"

definition requirements_framework :: "KeyFile list \<Rightarrow> string option" where
  "requirements_framework kfs =
     (case find (\<lambda>f. str_includes (path f) ''requirements'') kfs of
        None \<Rightarrow> None
      | Some requirements \<Rightarrow>
          if content requirements = [] then None
          else
            (let text = toLowerCase (content requirements)
             in if str_includes text ''django'' then Some ''Django''
                else if str_includes text ''flask'' then Some ''Flask''
                else if str_includes text ''fastapi'' then Some ''FastAPI''
                else None))"

definition detectFramework :: "KeyFile list \<Rightarrow> string \<Rightarrow> string option" where
  "detectFramework kfs lang =
     (case manifest_framework kfs of
        Some f \<Rightarrow> Some f
      | None \<Rightarrow> requirements_framework kfs)"

definition generateEnhancedRecommendations ::
  "RepositoryAnalysisData \<Rightarrow> ClaudeAnalysis \<Rightarrow> string list" where
  "generateEnhancedRecommendations repoData claudeAnalysis =
     (if 0 < length (keyInsights claudeAnalysis) then
        [''**'' @ emoji_robot @ '' AI-Powered Recommendations:**'']
        @ map (\<lambda>insight. bullet @ '' '' @ insight) (take 6 (keyInsights claudeAnalysis))
        @ [[]]
      else [])
     @ [''**'' @ emoji_rocket @ '' Setup & Development:**'',
        bullet @ '' Clone the repository and review all README files'']
     @ (case repo_language (repo (details (repository repoData))) of
          None \<Rightarrow> []
        | Some mainLanguage \<Rightarrow>
            if mainLanguage = ''JavaScript'' \<or> mainLanguage = ''TypeScript'' then
              [bullet @ '' Run `npm install` to install all dependencies'',
               bullet @ '' Check package.json for available development scripts'']
              @ (case detectFramework (keyFiles repoData) mainLanguage of
                   None \<Rightarrow> []
                 | Some fw \<Rightarrow>
                     [bullet @ '' Familiarize yourself with '' @ fw @ '' framework patterns''])
            else [])
     @ (if list_ex (\<lambda>f. str_includes (path f) ''schema.prisma'') (keyFiles repoData)
           \<or> str_includes (dataModel claudeAnalysis) ''prisma'' then
          [[],
           ''**'' @ emoji_cabinet @ '' Database & Data Model:**'',
           bullet @ '' Review the Prisma schema for data model understanding'',
           bullet @ '' Run `npx prisma generate` to generate the client'',
           bullet @ '' Study entity relationships and database constraints'',
           bullet @ '' Use `npx prisma studio` to explore the database visually'']
        else [])
     @ (if 0 < length (features claudeAnalysis) then
          [[], ''**'' @ emoji_target @ '' Feature Exploration:**'']
          @ map (\<lambda>feature. bullet @ '' Explore the '' @ feature @ '' implementation'')
              (take 4 (features claudeAnalysis))
        else [])
     @ [[],
        ''**'' @ emoji_clipboard @ '' Code Quality & Best Practices:**'',
        bullet @ '' Review the codebase structure and naming conventions'',
        bullet @ '' Check for existing tests and testing patterns'',
        bullet @ '' Look for linting and formatting configurations'']"

definition generateBasicRecommendations :: "RepositoryAnalysisData \<Rightarrow> string list" where
  "generateBasicRecommendations repoData =
     [''Clone the repository and review the README.md file'']
     @ (case repo_language (repo (details (repository repoData))) of
          None \<Rightarrow> []
        | Some mainLanguage \<Rightarrow>
            if mainLanguage = ''JavaScript'' \<or> mainLanguage = ''TypeScript'' then
              [''Run `npm install` to install dependencies'',
               ''Check package.json for available scripts'']
            else [])"

subsection \<open>The report\<close>

text \<open>
  The texts of the guide and of the technical analysis are assembled by four functions
  of the source that format dates in the locale of the server, read the clock and print
  floating point percentages. They return a string on every input and no property below
  depends on the text, so the model takes them as given. The time stamp of the metadata
  is left out for the same reason.
\<close>

record renderers =
  generateEnhancedOnboardingGuide ::
    "RepositoryAnalysisData \<Rightarrow> ClaudeAnalysis \<Rightarrow> string \<Rightarrow> string \<Rightarrow> string"
  generateEnhancedTechnicalAnalysis ::
    "RepositoryAnalysisData \<Rightarrow> ClaudeAnalysis \<Rightarrow> string \<Rightarrow> string \<Rightarrow> string"
  generateBasicOnboardingGuide :: "RepositoryAnalysisData \<Rightarrow> string \<Rightarrow> string \<Rightarrow> string"
  generateBasicTechnicalAnalysis :: "RepositoryAnalysisData \<Rightarrow> string \<Rightarrow> string \<Rightarrow> string"

record report_metadata =
  analysisType :: string
  meta_setupInstructions :: "string option"
  meta_keyInsights :: "string list option"

record OnboardingResult =
  success :: bool
  onboardingGuide :: string
  technicalAnalysis :: string
  recommendations :: "string list"
  error :: "string option"
  metadata :: "report_metadata option"

text \<open>
  \<open>generateBasicOnboarding\<close> gathers again: its replies are those of a second pass over
  the API, which need not equal the first.
\<close>

definition generateBasicOnboarding ::
  "renderers \<Rightarrow> github \<Rightarrow> string \<Rightarrow> string \<Rightarrow> js_error \<Rightarrow> OnboardingResult" where
  "generateBasicOnboarding R g2 owner rname err =
     (case gatherRepositoryData g2 of
        Inr repoData \<Rightarrow>
          \<lparr>success = True,
           onboardingGuide = generateBasicOnboardingGuide R repoData owner rname,
           technicalAnalysis = generateBasicTechnicalAnalysis R repoData owner rname,
           recommendations = generateBasicRecommendations repoData,
           error = None,
           metadata = Some \<lparr>analysisType = ''basic_fallback'', meta_setupInstructions = None,
                            meta_keyInsights = None\<rparr>\<rparr>
      | Inl fallbackError \<Rightarrow>
          \<lparr>success = False,
           onboardingGuide = ''Failed to generate onboarding guide'',
           technicalAnalysis = ''Analysis failed'',
           recommendations = [''Please try again later''],
           error = Some (message err),
           metadata = None\<rparr>)"

text \<open>
  The result of a run, or \<^term>\<open>None\<close> when the run never returns. Inside the \<open>try\<close> only
  the gathering can throw: the AI analysis catches its own failures, and the three
  generators do not throw.
\<close>

definition generateComprehensiveOnboarding ::
  "renderers \<Rightarrow> github \<Rightarrow> github \<Rightarrow> ai_reply \<Rightarrow> string \<Rightarrow> string \<Rightarrow> OnboardingResult option"
  where
  "generateComprehensiveOnboarding R g1 g2 ai owner rname =
     (case gatherRepositoryData g1 of
        Inl err \<Rightarrow> Some (generateBasicOnboarding R g2 owner rname err)
      | Inr repoData \<Rightarrow>
          (case performClaudeCodeAnalysis ai of
             None \<Rightarrow> None
           | Some claudeAnalysis \<Rightarrow>
               Some \<lparr>success = True,
                     onboardingGuide =
                       generateEnhancedOnboardingGuide R repoData claudeAnalysis owner rname,
                     technicalAnalysis =
                       generateEnhancedTechnicalAnalysis R repoData claudeAnalysis owner rname,
                     recommendations = generateEnhancedRecommendations repoData claudeAnalysis,
                     error = None,
                     metadata =
                       Some \<lparr>analysisType = ''claude_enhanced_analysis'',
                             meta_setupInstructions = Some (setupInstructions claudeAnalysis),
                             meta_keyInsights = Some (keyInsights claudeAnalysis)\<rparr>\<rparr>))"

section \<open>The streaming route (\<open>POST\<close> of the onboarding endpoint)\<close>

subsection \<open>Events and their frames\<close>

text \<open>
  The objects that the route passes to \<open>sendSSE\<close>: the two kinds of progress event
  (\<open>type: 'progress'\<close>, and \<open>type: 'message'\<close> whose data has \<open>type: 'progress'\<close>), the
  result event (\<open>type: 'complete'\<close>) and the error event.
\<close>

datatype sse_data =
    Progress string
  | Message string string nat
  | Complete string string "string list"
  | ErrorEvent string

fun is_progress :: "sse_data \<Rightarrow> bool" where
  "is_progress (Progress m) = True"
| "is_progress (Message c ts p) = True"
| "is_progress e = False"

fun is_terminal :: "sse_data \<Rightarrow> bool" where
  "is_terminal (Complete g t rs) = True"
| "is_terminal (ErrorEvent m) = True"
| "is_terminal e = False"

fun payload :: "sse_data \<Rightarrow> json" where
  "payload (Progress m) = JObj [(''type'', JStr ''progress''), (''message'', JStr m)]"
| "payload (Message c ts p) =
     JObj [(''type'', JStr ''message''),
           (''data'', JObj [(''type'', JStr ''progress''), (''content'', JStr c),
                            (''timestamp'', JStr ts), (''progress'', JNum (digits_of p))])]"
| "payload (Complete g t rs) =
     JObj [(''type'', JStr ''complete''),
           (''data'', JObj [(''onboardingGuide'', JStr g), (''technicalAnalysis'', JStr t),
                            (''recommendations'', JArr (map JStr rs))])]"
| "payload (ErrorEvent m) = JObj [(''type'', JStr ''error''), (''message'', JStr m)]"

text \<open>\<open>JSON.stringify\<close> of such an object.\<close>

definition hex_digit :: "nat \<Rightarrow> char" where
  "hex_digit n = (if n < 10 then char_of (48 + n) else char_of (87 + n))"

definition escape_char :: "char \<Rightarrow> string" where
  "escape_char c =
     (if c = CHR 0x22 then [CHR 0x5C, CHR 0x22]
      else if c = CHR 0x5C then [CHR 0x5C, CHR 0x5C]
      else if c = CHR 0x08 then [CHR 0x5C, CHR ''b'']
      else if c = CHR 0x0C then [CHR 0x5C, CHR ''f'']
      else if c = CHR 0x0A then [CHR 0x5C, CHR ''n'']
      else if c = CHR 0x0D then [CHR 0x5C, CHR ''r'']
      else if c = CHR 0x09 then [CHR 0x5C, CHR ''t'']
      else if code_of c < 32 then
        [CHR 0x5C, CHR ''u'', CHR ''0'', CHR ''0'', hex_digit (code_of c div 16),
         hex_digit (code_of c mod 16)]
      else [c])"

definition quote :: "string \<Rightarrow> string" where
  "quote s = [CHR 0x22] @ concat (map escape_char s) @ [CHR 0x22]"

fun stringify :: "json \<Rightarrow> string"
  and stringify_members :: "(string \<times> json) list \<Rightarrow> string list"
where
  "stringify JNull = ''null''"
| "stringify (JBool b) = (if b then ''true'' else ''false'')"
| "stringify (JNum t) = t"
| "stringify (JStr s) = quote s"
| "stringify (JArr vs) = ''['' @ join '','' (map stringify vs) @ '']''"
| "stringify (JObj ms) = ''{'' @ join '','' (stringify_members ms) @ ''}''"
| "stringify_members [] = []"
| "stringify_members ((k, v) # ms) = (quote k @ '':'' @ stringify v) # stringify_members ms"

definition frame :: "sse_data \<Rightarrow> string" where
  "frame d = ''data: '' @ stringify (payload d) @ [CHR 0x0A, CHR 0x0A]"

text \<open>The frame that ends the stream of the diagram route of this repository.\<close>

definition done_frame :: string where
  "done_frame = ''data: [DONE]'' @ [CHR 0x0A, CHR 0x0A]"

subsection \<open>The stream\<close>

text \<open>
  The state of the \<open>ReadableStream\<close>: what was enqueued, the flag \<open>isStreamClosed\<close> of
  the route, and whether the controller was closed. The client is the rest of the
  environment: \<open>disconnectAfter = Some n\<close> is a client that goes away once \<open>n\<close> frames
  are enqueued. The \<open>abort\<close> listener, which sets the flag and closes the controller, is
  an event handler: it runs while the route waits for the service or for the timer
  between two steps, not between two sends that follow each other. \<open>clock i\<close> is the time
  stamp put on the \<open>i\<close>-th step.
\<close>

record stream =
  enqueued :: "sse_data list"
  isStreamClosed :: bool
  controllerClosed :: bool

record client =
  disconnectAfter :: "nat option"
  clock :: "nat \<Rightarrow> string"

definition abort_listener :: "client \<Rightarrow> stream \<Rightarrow> stream" where
  "abort_listener cl st =
     (case disconnectAfter cl of
        None \<Rightarrow> st
      | Some n \<Rightarrow>
          if n \<le> length (enqueued st)
          then st\<lparr>isStreamClosed := True, controllerClosed := True\<rparr>
          else st)"

text \<open>
  \<open>sendSSE\<close> enqueues the frame unless the flag is set. (Its \<open>catch\<close>, for an \<open>enqueue\<close> on
  a controller that is closed already, is not modelled: the listener sets the flag
  when it closes the controller.)
\<close>

definition sendSSE :: "sse_data \<Rightarrow> stream \<Rightarrow> stream" where
  "sendSSE d st =
     (if isStreamClosed st then st else st\<lparr>enqueued := enqueued st @ [d]\<rparr>)"

definition progressSteps :: "(string \<times> nat) list" where
  "progressSteps =
     [(''Analyzing repository structure...'', 25),
      (''Processing key files...'', 50),
      (''Generating technical analysis...'', 75),
      (''Creating recommendations...'', 90)]"

text \<open>
  The \<open>for\<close> loop over the steps, from step \<open>i\<close> on: a send, then 300 ms of waiting. It
  stops when the flag is set.
\<close>

fun send_steps :: "client \<Rightarrow> nat \<Rightarrow> (string \<times> nat) list \<Rightarrow> stream \<Rightarrow> stream" where
  "send_steps cl i [] st = st"
| "send_steps cl i (step # steps) st =
     (if isStreamClosed st then st
      else send_steps cl (Suc i) steps
             (abort_listener cl (sendSSE (Message (fst step) (clock cl i) (snd step)) st)))"

definition or_else :: "string \<Rightarrow> string \<Rightarrow> string" where
  "or_else s d = (if s = [] then d else s)"

text \<open>The result event and the error event of a result.\<close>

definition complete_event :: "OnboardingResult \<Rightarrow> sse_data" where
  "complete_event result =
     Complete (or_else (onboardingGuide result) ''Analysis completed'')
       (or_else (technicalAnalysis result) ''Technical analysis completed'')
       (recommendations result)"

definition error_event :: "OnboardingResult \<Rightarrow> sse_data" where
  "error_event result =
     ErrorEvent (case error result of
                   None \<Rightarrow> ''Analysis failed''
                 | Some m \<Rightarrow> or_else m ''Analysis failed'')"

text \<open>
  What \<open>start\<close> does once the service has returned \<open>result\<close>, up to the \<open>finally\<close>, which
  closes the controller unless the flag is set.
\<close>

definition finally_close :: "stream \<Rightarrow> stream" where
  "finally_close st = (if isStreamClosed st then st else st\<lparr>controllerClosed := True\<rparr>)"

definition report_result :: "client \<Rightarrow> OnboardingResult \<Rightarrow> stream \<Rightarrow> stream" where
  "report_result cl result st =
     finally_close
       (if isStreamClosed st then st
        else if success result then
          (let st' = send_steps cl 0 progressSteps st
           in if isStreamClosed st' then st'
              else sendSSE (complete_event result) st')
        else sendSSE (error_event result) st)"

text \<open>
  \<open>start\<close>: two progress events, the call of the service, the report. When the service
  never returns, neither does \<open>start\<close>: the stream stays as the two events left it,
  open unless the client goes away.
\<close>

definition start ::
  "renderers \<Rightarrow> github \<Rightarrow> github \<Rightarrow> ai_reply \<Rightarrow> client \<Rightarrow> string \<Rightarrow> string \<Rightarrow> stream" where
  "start R g1 g2 ai cl owner rname =
     (let st0 = \<lparr>enqueued = [], isStreamClosed = False, controllerClosed = False\<rparr>;
          st1 = sendSSE (Progress ''Starting repository analysis...'') st0;
          st2 = sendSSE (Progress ''Gathering repository data...'') st1
      in case generateComprehensiveOnboarding R g1 g2 ai owner rname of
           None \<Rightarrow> abort_listener cl st2
         | Some result \<Rightarrow> report_result cl result (abort_listener cl st2))"

text \<open>
  The handler: without a token the answer is 401, without an owner or a repository name
  400, and a body that cannot be read 500; otherwise the answer is the stream.
\<close>

record request_body =
  body_owner :: "string option"
  body_repo :: "string option"

datatype response = JsonResponse nat string | EventStream stream

definition falsy :: "string option \<Rightarrow> bool" where
  "falsy v = (case v of None \<Rightarrow> True | Some s \<Rightarrow> s = [])"

definition POST ::
  "renderers \<Rightarrow> github \<Rightarrow> github \<Rightarrow> ai_reply \<Rightarrow> client \<Rightarrow> string option
     \<Rightarrow> request_body option \<Rightarrow> response" where
  "POST R g1 g2 ai cl accessToken body =
     (if falsy accessToken then JsonResponse 401 ''Unauthorized''
      else case body of
             None \<Rightarrow> JsonResponse 500 ''Internal server error''
           | Some b \<Rightarrow>
               (case (body_owner b, body_repo b) of
                  (Some owner, Some rname) \<Rightarrow>
                    if owner = [] \<or> rname = []
                    then JsonResponse 400 ''Owner and repo are required''
                    else EventStream (start R g1 g2 ai cl owner rname)
                | _ \<Rightarrow> JsonResponse 400 ''Owner and repo are required''))"

section \<open>Traces\<close>

text \<open>
  The events of a whole run, for a result of the service, and the part of a trace that a
  client receives: everything, or what was enqueued when it went away (the two opening
  frames are enqueued before the route waits for anything).
\<close>

fun step_events :: "client \<Rightarrow> nat \<Rightarrow> (string \<times> nat) list \<Rightarrow> sse_data list" where
  "step_events cl i [] = []"
| "step_events cl i (step # steps) =
     Message (fst step) (clock cl i) (snd step) # step_events cl (Suc i) steps"

definition opening_events :: "sse_data list" where
  "opening_events =
     [Progress ''Starting repository analysis...'', Progress ''Gathering repository data...'']"

definition full_trace :: "client \<Rightarrow> OnboardingResult \<Rightarrow> sse_data list" where
  "full_trace cl result =
     opening_events
     @ (if success result then step_events cl 0 progressSteps @ [complete_event result]
        else [error_event result])"

definition received :: "client \<Rightarrow> sse_data list \<Rightarrow> sse_data list" where
  "received cl xs = (case disconnectAfter cl of None \<Rightarrow> xs | Some n \<Rightarrow> take (max 2 n) xs)"

text \<open>
  The invariant of the stream each time the route tests the flag, having sent the events
  \<open>xs\<close>.
\<close>

definition tracks :: "client \<Rightarrow> stream \<Rightarrow> sse_data list \<Rightarrow> bool" where
  "tracks cl st xs =
     (2 \<le> length xs \<and> enqueued st = received cl xs
      \<and> (isStreamClosed st
           = (case disconnectAfter cl of None \<Rightarrow> False | Some n \<Rightarrow> n \<le> length (enqueued st)))
      \<and> (controllerClosed st = isStreamClosed st))"

section \<open>Sample environments\<close>

definition sample_renderers :: renderers where
  "sample_renderers =
     \<lparr>generateEnhancedOnboardingGuide = (\<lambda>d a ow rn. ''# Guide for '' @ ow @ ''/'' @ rn),
      generateEnhancedTechnicalAnalysis = (\<lambda>d a ow rn. ''# Technical analysis''),
      generateBasicOnboardingGuide = (\<lambda>d ow rn. ''# Repository Onboarding Guide''),
      generateBasicTechnicalAnalysis = (\<lambda>d ow rn. ''# Technical Analysis'')\<rparr>"

definition sample_manifest :: string where
  \<open>sample_manifest =
     ''{"scripts":{"dev":"next dev","build":"next build"},"dependencies":{"react":"18"}}''\<close>

definition sample_tree :: "tree_item list" where
  "sample_tree =
     [\<lparr>item_path = ''package.json'', item_type = ''blob'', item_size = Some 81\<rparr>,
      \<lparr>item_path = ''src/index.ts'', item_type = ''blob'', item_size = Some 120\<rparr>]"

definition sample_github :: github where
  "sample_github =
     \<lparr>repos_get = Inr \<lparr>repo_language = Some ''TypeScript'', repo_description = None\<rparr>,
      listLanguages = Inr (JObj [(''TypeScript'', JNum ''201'')]),
      listContributors = Inr (JArr []),
      listCommits = Inr (JArr []),
      getCodeFrequencyStats = Inl OtherFailure,
      getParticipationStats = Inl OtherFailure,
      getPunchCardStats_reply = Inr (JArr []),
      listReleases = Inr (JArr []),
      listDeployments = Inr (JArr []),
      getViews = Inl Unauthorized,
      getClones = Inl Unauthorized,
      getTopReferrers = Inl Unauthorized,
      getTopPaths = Inl Unauthorized,
      getTree = Inr sample_tree,
      getContent = (\<lambda>p. if p = ''package.json'' then FileData sample_manifest
                         else Failed NotFound)\<rparr>"

definition connected :: client where
  "connected = \<lparr>disconnectAfter = None, clock = (\<lambda>i. ''2025-01-28T00:00:00.000Z'')\<rparr>"


definition sample_body :: request_body where
  "sample_body = \<lparr>body_owner = Some ''durdan'', body_repo = Some ''sdlc-tools''\<rparr>"

definition one_text :: "string \<Rightarrow> SDKMessage list" where
  "one_text t =
     [\<lparr>msg_type = ''assistant'',
       msg_content = Some [\<lparr>block_type = ''text'', block_text = Some t\<rparr>]\<rparr>]"

text \<open>The recommendations that every enhanced list holds, whatever the analysis found.\<close>

definition minimum_recommendations :: "string list" where
  "minimum_recommendations =
     [''**'' @ emoji_rocket @ '' Setup & Development:**'',
      bullet @ '' Clone the repository and review all README files'',
      ''**'' @ emoji_clipboard @ '' Code Quality & Best Practices:**'',
      bullet @ '' Review the codebase structure and naming conventions'',
      bullet @ '' Check for existing tests and testing patterns'',
      bullet @ '' Look for linting and formatting configurations'']"

definition sample_data :: RepositoryAnalysisData where
  "sample_data =
     \<lparr>repository =
        \<lparr>details = \<lparr>repo = \<lparr>repo_language = Some ''Python'', repo_description = None\<rparr>,
                     languages = JObj [], contributors = JArr [], recentCommits = JArr []\<rparr>,
         analytics_of = JObj []\<rparr>,
      analytics = JObj [], codeStructure = [], keyFiles = []\<rparr>"

definition tree_unreachable :: github where
  "tree_unreachable = sample_github\<lparr>getTree := Inl RateLimited\<rparr>"

definition files_unreachable :: github where
  "files_unreachable = sample_github\<lparr>getContent := (\<lambda>p. Failed NotFound)\<rparr>"

definition metadata_fails :: "api_failure \<Rightarrow> github" where
  "metadata_fails cause = sample_github\<lparr>repos_get := Inl cause\<rparr>"



text \<open>The values that the variable \<open>framework\<close> of \<open>analyzeProjectStructure\<close> can take.\<close>

definition frameworks :: "string set" where
  "frameworks = {''Unknown'', ''React'', ''Vue.js'', ''Angular'', ''Next.js'', ''Express.js'',
                 ''Fastify'', ''Django'', ''Flask'', ''FastAPI''}"





section \<open>Properties of the stream\<close>

subsection \<open>The stream invariant\<close>

lemma received_nonempty: "xs \<noteq> [] \<Longrightarrow> received cl xs \<noteq> []"
  by (cases xs) (auto simp: received_def max_def split: option.split)

lemma set_received: "set (received cl xs) \<subseteq> set xs"
  by (auto simp: received_def split: option.split dest: in_set_takeD)

lemma tracks_closed:
  assumes "tracks cl st xs" and "isStreamClosed st"
  shows "tracks cl st (xs @ ys)"
proof -
  from assms obtain n where n: "disconnectAfter cl = Some n" "n \<le> length (enqueued st)"
    by (auto simp: tracks_def split: option.splits)
  from assms have e: "enqueued st = take (max 2 n) xs" and x: "2 \<le> length xs"
    using n by (auto simp: tracks_def received_def)
  from n e x have "max 2 n \<le> length xs" by (auto simp: max_def split: if_splits)
  then have "take (max 2 n) (xs @ ys) = take (max 2 n) xs" by simp
  with assms n show ?thesis by (auto simp: tracks_def received_def)
qed

lemma tracks_open:
  assumes "tracks cl st xs" and "\<not> isStreamClosed st"
  shows "enqueued st = xs" and "received cl (xs @ [d]) = xs @ [d]"
proof -
  show "enqueued st = xs"
  proof (cases "disconnectAfter cl")
    case None
    with assms show ?thesis by (simp add: tracks_def received_def)
  next
    case (Some n)
    with assms have lt: "length (enqueued st) < n" and e: "enqueued st = take (max 2 n) xs"
      by (auto simp: tracks_def received_def)
    from lt e have "length xs < n" by (auto simp: max_def min_def split: if_splits)
    with e show ?thesis by simp
  qed
  show "received cl (xs @ [d]) = xs @ [d]"
  proof (cases "disconnectAfter cl")
    case None
    then show ?thesis by (simp add: received_def)
  next
    case (Some n)
    with assms have lt: "length (enqueued st) < n" and e: "enqueued st = take (max 2 n) xs"
      by (auto simp: tracks_def received_def)
    from lt e have "length xs < n" by (auto simp: max_def min_def split: if_splits)
    with Some show ?thesis by (simp add: received_def)
  qed
qed

lemma tracks_send_and_wait:
  assumes "tracks cl st xs" and "\<not> isStreamClosed st"
  shows "tracks cl (abort_listener cl (sendSSE d st)) (xs @ [d])"
proof -
  from tracks_open[OF assms] have e: "enqueued st = xs" "received cl (xs @ [d]) = xs @ [d]"
    by simp_all
  from assms have c: "\<not> controllerClosed st" and x: "2 \<le> length xs"
    by (simp_all add: tracks_def)
  show ?thesis
    using assms(2) e c x
    by (auto simp: tracks_def sendSSE_def abort_listener_def split: option.split)
qed

lemma tracks_send_steps:
  "tracks cl st xs \<Longrightarrow> tracks cl (send_steps cl i steps st) (xs @ step_events cl i steps)"
proof (induction steps arbitrary: st xs i)
  case Nil
  then show ?case by simp
next
  case (Cons step steps)
  show ?case
  proof (cases "isStreamClosed st")
    case True
    with Cons.prems show ?thesis by (simp add: tracks_closed)
  next
    case False
    from Cons.prems False
    have "tracks cl (abort_listener cl (sendSSE (Message (fst step) (clock cl i) (snd step)) st))
        (xs @ [Message (fst step) (clock cl i) (snd step)])"
      by (rule tracks_send_and_wait)
    from Cons.IH[OF this] False show ?thesis by simp
  qed
qed

lemma tracks_opening:
  "tracks cl (abort_listener cl
       (sendSSE (Progress ''Gathering repository data...'')
          (sendSSE (Progress ''Starting repository analysis...'')
             \<lparr>enqueued = [], isStreamClosed = False, controllerClosed = False\<rparr>))) opening_events"
  by (auto simp: tracks_def sendSSE_def abort_listener_def received_def opening_events_def
      split: option.split)

text \<open>The last send of a run, which nothing follows but the \<open>finally\<close>.\<close>

lemma last_send:
  assumes "tracks cl st xs"
  shows "enqueued (finally_close (if isStreamClosed st then st else sendSSE d st))
           = received cl (xs @ [d])"
    and "controllerClosed (finally_close (if isStreamClosed st then st else sendSSE d st))"
proof -
  show "enqueued (finally_close (if isStreamClosed st then st else sendSSE d st))
           = received cl (xs @ [d])"
  proof (cases "isStreamClosed st")
    case True
    from tracks_closed[OF assms True, of "[d]"] True show ?thesis
      by (simp add: tracks_def finally_close_def)
  next
    case False
    from tracks_open(1)[OF assms False] tracks_open(2)[OF assms False, of d] False show ?thesis
      by (simp add: finally_close_def sendSSE_def)
  qed
  show "controllerClosed (finally_close (if isStreamClosed st then st else sendSSE d st))"
    using assms by (auto simp: tracks_def finally_close_def sendSSE_def)
qed

lemma tracks_report:
  assumes "tracks cl st opening_events"
  shows "enqueued (report_result cl result st) = received cl (full_trace cl result)"
    and "controllerClosed (report_result cl result st)"
proof -
  have s: "tracks cl (send_steps cl 0 progressSteps st)
             (opening_events @ step_events cl 0 progressSteps)"
    using assms by (rule tracks_send_steps)
  have closed_steps: "isStreamClosed (send_steps cl 0 progressSteps st)" if "isStreamClosed st"
    using that by (simp add: progressSteps_def)
  have r: "report_result cl result st
      = (if success result
         then finally_close (if isStreamClosed (send_steps cl 0 progressSteps st)
                             then send_steps cl 0 progressSteps st
                             else sendSSE (complete_event result)
                                    (send_steps cl 0 progressSteps st))
         else finally_close (if isStreamClosed st then st else sendSSE (error_event result) st))"
  proof (cases "isStreamClosed st")
    case True
    then have "send_steps cl 0 progressSteps st = st" by (simp add: progressSteps_def)
    with True show ?thesis by (simp add: report_result_def)
  next
    case False
    then show ?thesis by (simp add: report_result_def Let_def)
  qed
  show "enqueued (report_result cl result st) = received cl (full_trace cl result)"
    unfolding r using last_send(1)[OF s, of "complete_event result"]
      last_send(1)[OF assms, of "error_event result"]
    by (simp add: full_trace_def)
  show "controllerClosed (report_result cl result st)"
    unfolding r using last_send(2)[OF s, of "complete_event result"]
      last_send(2)[OF assms, of "error_event result"]
    by simp
qed

lemma start_returns:
  assumes "generateComprehensiveOnboarding R g1 g2 ai owner rname = Some result"
  shows "enqueued (start R g1 g2 ai cl owner rname) = received cl (full_trace cl result)"
    and "controllerClosed (start R g1 g2 ai cl owner rname)"
  using assms tracks_report[OF tracks_opening, of cl result]
  by (simp_all add: start_def Let_def)

lemma start_hangs:
  assumes "generateComprehensiveOnboarding R g1 g2 ai owner rname = None"
  shows "enqueued (start R g1 g2 ai cl owner rname) = received cl opening_events"
  using assms tracks_opening[of cl]
  by (simp add: start_def Let_def tracks_def)

subsection \<open>The shape of a trace\<close>

lemma step_events_progress: "list_all is_progress (step_events cl i steps)"
  by (induction steps arbitrary: i) auto

lemma opening_progress: "list_all is_progress opening_events"
  by (simp add: opening_events_def)

lemma full_trace_shape:
  "\<exists>ps t. full_trace cl result = ps @ [t] \<and> ps \<noteq> [] \<and> list_all is_progress ps \<and> is_terminal t
          \<and> t = (if success result then complete_event result else error_event result)"
proof (cases "success result")
  case True
  have "full_trace cl result = (opening_events @ step_events cl 0 progressSteps) @ [complete_event result]"
    using True by (simp add: full_trace_def)
  moreover have "opening_events @ step_events cl 0 progressSteps \<noteq> []"
    by (simp add: opening_events_def)
  moreover have "list_all is_progress (opening_events @ step_events cl 0 progressSteps)"
    by (simp add: opening_progress step_events_progress)
  moreover have "is_terminal (complete_event result)" by (simp add: complete_event_def)
  ultimately show ?thesis using True
    by (intro exI[of _ "opening_events @ step_events cl 0 progressSteps"]
          exI[of _ "complete_event result"]) simp
next
  case False
  have "full_trace cl result = opening_events @ [error_event result]"
    using False by (simp add: full_trace_def)
  moreover have "opening_events \<noteq> []" by (simp add: opening_events_def)
  moreover have "is_terminal (error_event result)" by (simp add: error_event_def)
  ultimately show ?thesis using False opening_progress
    by (intro exI[of _ opening_events] exI[of _ "error_event result"]) simp
qed

lemma received_shape:
  assumes "ps \<noteq> []"
  shows "\<exists>qs ts. received cl (ps @ [t]) = qs @ ts \<and> qs \<noteq> [] \<and> set qs \<subseteq> set ps
            \<and> (ts = [] \<or> ts = [t]) \<and> (disconnectAfter cl = None \<longrightarrow> ts = [t])"
proof (cases "disconnectAfter cl")
  case None
  then have "received cl (ps @ [t]) = ps @ [t]" by (simp add: received_def)
  with assms None show ?thesis by (intro exI[of _ ps] exI[of _ "[t]"]) simp
next
  case (Some n)
  show ?thesis
  proof (cases "max 2 n \<le> length ps")
    case True
    then have "received cl (ps @ [t]) = take (max 2 n) ps @ []"
      using Some by (simp add: received_def)
    moreover have "take (max 2 n) ps \<noteq> []" using assms by (cases ps) (auto simp: max_def)
    moreover have "set (take (max 2 n) ps) \<subseteq> set ps" by (rule set_take_subset)
    ultimately show ?thesis using Some
      by (intro exI[of _ "take (max 2 n) ps"] exI[of _ "[]"]) simp
  next
    case False
    then have "length ps < max 2 n" by linarith
    then have "take (max 2 n) (ps @ [t]) = ps @ [t]" by simp
    then have "received cl (ps @ [t]) = ps @ [t]" using Some by (simp add: received_def)
    with assms Some show ?thesis by (intro exI[of _ ps] exI[of _ "[t]"]) simp
  qed
qed

lemma POST_stream:
  assumes "POST R g1 g2 ai cl accessToken body = EventStream st"
  obtains owner rname where "st = start R g1 g2 ai cl owner rname"
  using assms
  by (auto simp: POST_def split: if_splits option.splits prod.splits)

lemma service_returns:
  "ai \<noteq> AiNeverReturns \<Longrightarrow> \<exists>result. generateComprehensiveOnboarding R g1 g2 ai owner rname = Some result"
  by (cases ai) (auto simp: generateComprehensiveOnboarding_def performClaudeCodeAnalysis_def split: sum.split)

lemma start_shape:
  "\<exists>ps ts. enqueued (start R g1 g2 ai cl owner rname) = ps @ ts \<and> ps \<noteq> [] \<and> list_all is_progress ps
      \<and> (ts = [] \<or> (\<exists>t. ts = [t] \<and> is_terminal t
             \<and> (\<exists>result. generateComprehensiveOnboarding R g1 g2 ai owner rname = Some result
                   \<and> t = (if success result then complete_event result else error_event result))))
      \<and> (disconnectAfter cl = None \<and> ai \<noteq> AiNeverReturns \<longrightarrow> ts \<noteq> [])"
proof (cases "generateComprehensiveOnboarding R g1 g2 ai owner rname")
  case None
  then have ai: "ai = AiNeverReturns" using service_returns[of ai R g1 g2 owner rname] by auto
  have e: "enqueued (start R g1 g2 ai cl owner rname) = received cl opening_events @ []"
    using start_hangs[OF None] by simp
  have ne: "received cl opening_events \<noteq> []"
    by (rule received_nonempty) (simp add: opening_events_def)
  have pr: "list_all is_progress (received cl opening_events)"
    using set_received[of cl opening_events] opening_progress by (auto simp: list_all_iff)
  have nt: "disconnectAfter cl = None \<and> ai \<noteq> AiNeverReturns \<longrightarrow> ([]::sse_data list) \<noteq> []"
    using ai by simp
  show ?thesis
    by (intro exI[of _ "received cl opening_events"] exI[of _ "[]"] conjI disjI1 e ne pr nt refl)
next
  case (Some result)
  obtain ps t where f: "full_trace cl result = ps @ [t]" and ps: "ps \<noteq> []" "list_all is_progress ps"
    and t: "is_terminal t" "t = (if success result then complete_event result else error_event result)"
    using full_trace_shape[of cl result] by (elim exE conjE)
  obtain qs ts where r: "received cl (ps @ [t]) = qs @ ts" "qs \<noteq> []" "set qs \<subseteq> set ps"
    "ts = [] \<or> ts = [t]" "disconnectAfter cl = None \<longrightarrow> ts = [t]"
    using received_shape[OF ps(1), of cl t] by (elim exE conjE)
  have e: "enqueued (start R g1 g2 ai cl owner rname) = qs @ ts"
    using start_returns(1)[OF Some] f r(1) by simp
  have "list_all is_progress qs" using r(3) ps(2) by (auto simp: list_all_iff)
  have tm: "ts = [] \<or> (\<exists>t. ts = [t] \<and> is_terminal t
             \<and> (\<exists>result. generateComprehensiveOnboarding R g1 g2 ai owner rname = Some result
                   \<and> t = (if success result then complete_event result else error_event result)))"
  proof (cases "ts = []")
    case True
    then show ?thesis by simp
  next
    case False
    with r(4) have "ts = [t]" by simp
    with t Some show ?thesis by (intro disjI2 exI[of _ t]) simp
  qed
  have "disconnectAfter cl = None \<and> ai \<noteq> AiNeverReturns \<longrightarrow> ts \<noteq> []"
    using r(5) by simp
  with e r(2) \<open>list_all is_progress qs\<close> tm show ?thesis
    by (intro exI[of _ qs] exI[of _ ts] conjI)
qed

section \<open>The recommendations of a report\<close>

lemma length_enhanced: "length (generateEnhancedRecommendations d a) \<le> 30"
proof -
  have k: "length (take 6 (keyInsights a)) \<le> 6" by simp
  have f: "length (take 4 (features a)) \<le> 4" by simp
  show ?thesis
    using k f unfolding generateEnhancedRecommendations_def
    by (auto split: option.split simp del: length_take)
qed

lemma length_basic: "length (generateBasicRecommendations d) \<le> 3"
  unfolding generateBasicRecommendations_def
  by (simp split: option.split)

lemma enhanced_nonempty: "generateEnhancedRecommendations d a \<noteq> []"
  unfolding generateEnhancedRecommendations_def by simp

lemma basic_nonempty: "generateBasicRecommendations d \<noteq> []"
  unfolding generateBasicRecommendations_def by simp

lemma service_recommendations:
  assumes "generateComprehensiveOnboarding R g1 g2 ai owner rname = Some res"
  shows "recommendations res \<noteq> [] \<and> length (recommendations res) \<le> 30"
proof (cases "gatherRepositoryData g1")
  case (Inl err)
  show ?thesis
  proof (cases "gatherRepositoryData g2")
    case (Inr d)
    have "length (generateBasicRecommendations d) \<le> 3" by (rule length_basic)
    then show ?thesis
      using assms Inl Inr basic_nonempty[of d]
      by (auto simp: generateComprehensiveOnboarding_def generateBasicOnboarding_def)
  next
    case (Inl e2)
    then show ?thesis
      using assms \<open>gatherRepositoryData g1 = Inl err\<close>
      by (auto simp: generateComprehensiveOnboarding_def generateBasicOnboarding_def)
  qed
next
  case (Inr d)
  then show ?thesis
    using assms length_enhanced enhanced_nonempty
    by (auto simp: generateComprehensiveOnboarding_def split: option.splits)
qed

lemma enhanced_starts_with_insights:
  assumes "keyInsights a \<noteq> []"
  shows "\<exists>rest. generateEnhancedRecommendations d a =
           (''**'' @ emoji_robot @ '' AI-Powered Recommendations:**'')
           # map (\<lambda>insight. bullet @ '' '' @ insight) (take 6 (keyInsights a)) @ rest"
  using assms unfolding generateEnhancedRecommendations_def by simp

lemma enhanced_minimum:
  "set minimum_recommendations \<subseteq> set (generateEnhancedRecommendations d a)"
  unfolding generateEnhancedRecommendations_def minimum_recommendations_def by simp



text \<open>
  C9. Every list of recommendations has at most 30 entries, because the key insights are
  capped at six and the features at four; the AI-derived insights come first, under their
  heading; and the fixed setup and code-quality recommendations are in every enhanced list.
\<close>

theorem recommendations_bounded_insights_first:
  "length (generateEnhancedRecommendations d a) \<le> 30
   \<and> length (generateBasicRecommendations d) \<le> 30
   \<and> (generateComprehensiveOnboarding R g1 g2 ai owner rname = Some result
        \<longrightarrow> length (recommendations result) \<le> 30)
   \<and> (keyInsights a \<noteq> []
        \<longrightarrow> (\<exists>rest. generateEnhancedRecommendations d a =
               (''**'' @ emoji_robot @ '' AI-Powered Recommendations:**'')
               # map (\<lambda>insight. bullet @ '' '' @ insight) (take 6 (keyInsights a)) @ rest))
   \<and> set minimum_recommendations \<subseteq> set (generateEnhancedRecommendations d a)"
proof (intro conjI impI)
  show "length (generateEnhancedRecommendations d a) \<le> 30" by (rule length_enhanced)
  show "length (generateBasicRecommendations d) \<le> 30"
    using length_basic[of d] by simp
  show "length (recommendations result) \<le> 30"
    if "generateComprehensiveOnboarding R g1 g2 ai owner rname = Some result"
    using service_recommendations[OF that] by simp
  show "\<exists>rest. generateEnhancedRecommendations d a =
               (''**'' @ emoji_robot @ '' AI-Powered Recommendations:**'')
               # map (\<lambda>insight. bullet @ '' '' @ insight) (take 6 (keyInsights a)) @ rest"
    if "keyInsights a \<noteq> []"
    using that by (rule enhanced_starts_with_insights)
  show "set minimum_recommendations \<subseteq> set (generateEnhancedRecommendations d a)"
    by (rule enhanced_minimum)
qed

theorem recommendations_bounded_insights_first_witness:
  "generateComprehensiveOnboarding sample_renderers tree_unreachable sample_github AiThrows
       ''durdan'' ''sdlc-tools''
     = Some \<lparr>success = True, onboardingGuide = ''# Repository Onboarding Guide'',
             technicalAnalysis = ''# Technical Analysis'',
             recommendations =
               [''Clone the repository and review the README.md file'',
                ''Run `npm install` to install dependencies'',
                ''Check package.json for available scripts''],
             error = None,
             metadata = Some \<lparr>analysisType = ''basic_fallback'', meta_setupInstructions = None,
                              meta_keyInsights = None\<rparr>\<rparr>
   \<and> keyInsights unavailable_analysis \<noteq> []
   \<and> (\<exists>rest. generateEnhancedRecommendations sample_data unavailable_analysis =
          (''**'' @ emoji_robot @ '' AI-Powered Recommendations:**'')
          # [bullet @ '' Analysis limited - Claude SDK unavailable''] @ rest)
   \<and> length (generateEnhancedRecommendations sample_data unavailable_analysis) \<le> 30"
  (is "?run \<and> ?ins \<and> ?first \<and> ?len")
proof -
  have run: ?run by code_simp
  have ins: ?ins by (simp add: unavailable_analysis_def)
  note t = recommendations_bounded_insights_first[of sample_data unavailable_analysis
      sample_renderers tree_unreachable sample_github AiThrows "''durdan''" "''sdlc-tools''"]
  from t ins have first: ?first by (simp add: unavailable_analysis_def)
  from t have len: ?len by simp
  from run ins first len show ?thesis by simp
qed

section \<open>The order of the events\<close>

lemma stream_shape:
  assumes "POST R g1 g2 ai cl accessToken body = EventStream st"
  shows "\<exists>ps ts. enqueued st = ps @ ts \<and> ps \<noteq> [] \<and> list_all is_progress ps
           \<and> (ts = [] \<or> (\<exists>t. ts = [t] \<and> is_terminal t))
           \<and> (disconnectAfter cl = None \<and> ai \<noteq> AiNeverReturns
                \<longrightarrow> ts \<noteq> [] \<and> controllerClosed st)"
proof -
  from assms obtain owner rname where st: "st = start R g1 g2 ai cl owner rname"
    by (rule POST_stream)
  obtain ps ts where e: "enqueued st = ps @ ts" and ps: "ps \<noteq> []" "list_all is_progress ps"
    and ts: "ts = [] \<or> (\<exists>t. ts = [t] \<and> is_terminal t
             \<and> (\<exists>result. generateComprehensiveOnboarding R g1 g2 ai owner rname = Some result
                   \<and> t = (if success result then complete_event result else error_event result)))"
    and full: "disconnectAfter cl = None \<and> ai \<noteq> AiNeverReturns \<longrightarrow> ts \<noteq> []"
    using start_shape[of R g1 g2 ai cl owner rname] unfolding st by (elim exE conjE)
  from ts have one: "ts = [] \<or> (\<exists>t. ts = [t] \<and> is_terminal t)" by auto
  have closed: "controllerClosed st" if "ai \<noteq> AiNeverReturns"
  proof -
    from service_returns[OF that, of R g1 g2 owner rname] obtain result
      where "generateComprehensiveOnboarding R g1 g2 ai owner rname = Some result"
      by (elim exE)
    from start_returns(2)[OF this] show ?thesis by (simp add: st)
  qed
  from full closed have "disconnectAfter cl = None \<and> ai \<noteq> AiNeverReturns
      \<longrightarrow> ts \<noteq> [] \<and> controllerClosed st" by simp
  with e ps one show ?thesis by (intro exI[of _ ps] exI[of _ ts] conjI)
qed




lemma frame_not_done: "frame d \<noteq> done_frame"
proof -
  have "frame d ! 6 = CHR ''{''" by (cases d) (simp_all add: frame_def)
  moreover have "done_frame ! 6 = CHR 0x5B" by (simp add: done_frame_def)
  ultimately show ?thesis by auto
qed

text \<open>
  C8 (amended). No frame of a run is the \<open>[DONE]\<close> frame. When the client stays connected
  and the AI call returns or fails, the terminal event is the last thing enqueued and the
  controller is closed after it: the close is what marks the end of the stream.
\<close>

theorem no_done_frame:
  assumes "POST R g1 g2 ai cl accessToken body = EventStream st"
  shows "done_frame \<notin> set (map frame (enqueued st))
         \<and> (disconnectAfter cl = None \<and> ai \<noteq> AiNeverReturns
              \<longrightarrow> enqueued st \<noteq> [] \<and> is_terminal (last (enqueued st)) \<and> controllerClosed st)"
proof -
  have "done_frame \<notin> set (map frame (enqueued st))"
    using frame_not_done by (metis (no_types) imageE list.set_map)
  moreover have "enqueued st \<noteq> [] \<and> is_terminal (last (enqueued st)) \<and> controllerClosed st"
    if h: "disconnectAfter cl = None \<and> ai \<noteq> AiNeverReturns"
  proof -
    from stream_shape[OF assms] h obtain ps ts
      where e: "enqueued st = ps @ ts" and ts: "ts = [] \<or> (\<exists>t. ts = [t] \<and> is_terminal t)"
        and n: "ts \<noteq> []" and c: "controllerClosed st"
      by auto
    from ts n obtain t where "ts = [t]" "is_terminal t" by auto
    with e c show ?thesis by simp
  qed
  ultimately show ?thesis by blast
qed

theorem no_done_frame_witness:
  "POST sample_renderers tree_unreachable tree_unreachable AiThrows connected (Some ''token'')
       (Some sample_body)
     = EventStream
         \<lparr>enqueued = [Progress ''Starting repository analysis...'',
                      Progress ''Gathering repository data...'',
                      ErrorEvent ''Failed to fetch repository tree''],
          isStreamClosed = False, controllerClosed = True\<rparr>
   \<and> disconnectAfter connected = None \<and> AiThrows \<noteq> AiNeverReturns
   \<and> done_frame \<notin> set (map frame [Progress ''Starting repository analysis...'',
                                     Progress ''Gathering repository data...'',
                                     ErrorEvent ''Failed to fetch repository tree''])
   \<and> is_terminal (ErrorEvent ''Failed to fetch repository tree'')"
  (is "?run \<and> ?conn \<and> ?ai \<and> ?none \<and> ?last")
proof -
  have run: ?run by code_simp
  have conn: ?conn by (simp add: connected_def)
  have ai: ?ai by simp
  from no_done_frame[OF run] conn ai have ?none and ?last by simp_all
  with run conn ai show ?thesis by simp
qed

text \<open>
  The frames of a run that ends with an error event, as they are written to the stream:
  the frame of the error event is the last one, and the controller is closed after it.
\<close>

theorem last_frame_counterexample:
  \<open>map frame (enqueued (start sample_renderers tree_unreachable tree_unreachable AiThrows
                           connected ''durdan'' ''sdlc-tools''))
     = [''data: {"type":"progress","message":"Starting repository analysis..."}''
          @ [CHR 0x0A, CHR 0x0A],
        ''data: {"type":"progress","message":"Gathering repository data..."}''
          @ [CHR 0x0A, CHR 0x0A],
        ''data: {"type":"error","message":"Failed to fetch repository tree"}''
          @ [CHR 0x0A, CHR 0x0A]]
   \<and> controllerClosed (start sample_renderers tree_unreachable tree_unreachable AiThrows
                           connected ''durdan'' ''sdlc-tools'')\<close>
  by code_simp

section \<open>Gathering and the AI call\<close>

lemma getRepoDetails_fails:
  "isl (getRepoDetails g)
     = (isl (repos_get g) \<or> isl (listLanguages g) \<or> isl (listContributors g) \<or> isl (listCommits g))"
  by (auto simp: getRepoDetails_def split: sum.splits)

lemma analytics_fails:
  "getComprehensiveRepoAnalytics g
     = (if isl (repos_get g) \<or> isl (listLanguages g) \<or> isl (listContributors g)
           \<or> isl (listCommits g)
        then Inl (Error ''Failed to fetch comprehensive analytics'')
        else Inr (projr (getComprehensiveRepoAnalytics g)))"
  using getRepoDetails_fails[of g]
  by (auto simp: getComprehensiveRepoAnalytics_def split: sum.splits)

text \<open>
  C3 (amended). The gathering fails exactly when one of five calls fails: the four calls
  of the repository details (metadata, languages, contributors, commits) or the call of
  the file tree. The error it throws carries one of two fixed messages, which tell the
  two groups apart and nothing else; the cause that the API reported is not in it.
\<close>

theorem gather_fails_on_five_calls:
  "isl (gatherRepositoryData g)
     = (isl (repos_get g) \<or> isl (listLanguages g) \<or> isl (listContributors g)
        \<or> isl (listCommits g) \<or> isl (getTree g))
   \<and> (gatherRepositoryData g = Inl e
        \<longrightarrow> e = Error (if isl (repos_get g) \<or> isl (listLanguages g) \<or> isl (listContributors g)
                           \<or> isl (listCommits g)
                        then ''Failed to fetch comprehensive analytics''
                        else ''Failed to fetch repository tree''))"
proof (cases "isl (repos_get g) \<or> isl (listLanguages g) \<or> isl (listContributors g)
           \<or> isl (listCommits g)")
  case True
  then have "getComprehensiveRepoAnalytics g = Inl (Error ''Failed to fetch comprehensive analytics'')"
    using analytics_fails[of g] by simp
  then have "gatherRepositoryData g = Inl (Error ''Failed to fetch comprehensive analytics'')"
    by (simp add: gatherRepositoryData_def)
  with True show ?thesis by auto
next
  case False
  then obtain r where "getComprehensiveRepoAnalytics g = Inr r"
    using analytics_fails[of g] by auto
  then have "gatherRepositoryData g
      = (case getTree g of
           Inl e \<Rightarrow> Inl (Error ''Failed to fetch repository tree'')
         | Inr tree \<Rightarrow> Inr \<lparr>repository = r, analytics = analytics_of r,
                    codeStructure = analyzeCodeStructure tree,
                    keyFiles = getKeyFiles g tree\<rparr>)"
    by (simp add: gatherRepositoryData_def getRepositoryTree_def split: sum.splits)
  with False show ?thesis by (auto split: sum.splits)
qed

theorem gather_fails_on_five_calls_witness:
  "gatherRepositoryData tree_unreachable = Inl (Error ''Failed to fetch repository tree'')
   \<and> isl (gatherRepositoryData tree_unreachable)
   \<and> isl (getTree tree_unreachable) \<and> \<not> isl (repos_get tree_unreachable)"
  (is "?fails \<and> ?rest")
proof -
  have calls: "\<not> isl (repos_get tree_unreachable)" "\<not> isl (listLanguages tree_unreachable)"
    "\<not> isl (listContributors tree_unreachable)" "\<not> isl (listCommits tree_unreachable)"
    "isl (getTree tree_unreachable)"
    by (simp_all add: tree_unreachable_def sample_github_def)
  have f: "isl (gatherRepositoryData tree_unreachable)"
    using gather_fails_on_five_calls[of tree_unreachable] calls by simp
  then obtain e where e: "gatherRepositoryData tree_unreachable = Inl e"
    by (cases "gatherRepositoryData tree_unreachable") auto
  with gather_fails_on_five_calls[of tree_unreachable e] calls
  have "e = Error ''Failed to fetch repository tree''" by simp
  with e f calls show ?thesis by simp
qed

text \<open>
  The gathering fails although the metadata call succeeded, when the file tree cannot be
  fetched; and a metadata call that fails as not found and one that fails as rate
  limited end in the same error.
\<close>

theorem gather_cause_counterexample:
  "repos_get tree_unreachable = Inr \<lparr>repo_language = Some ''TypeScript'', repo_description = None\<rparr>
   \<and> gatherRepositoryData tree_unreachable = Inl (Error ''Failed to fetch repository tree'')
   \<and> gatherRepositoryData (metadata_fails NotFound)
       = Inl (Error ''Failed to fetch comprehensive analytics'')
   \<and> gatherRepositoryData (metadata_fails RateLimited)
       = Inl (Error ''Failed to fetch comprehensive analytics'')
   \<and> gatherRepositoryData (metadata_fails Unauthorized)
       = Inl (Error ''Failed to fetch comprehensive analytics'')"
  by (simp add: tree_unreachable_def metadata_fails_def sample_github_def gatherRepositoryData_def
      getComprehensiveRepoAnalytics_def getRepoDetails_def getRepositoryTree_def)

text \<open>
  C7. A key file whose content cannot be fetched is not left out: \<open>getFileContent\<close> turns
  the failure into \<open>null\<close>, and the loop pushes the file with an empty content. Here the
  manifest is not readable (404), and the gathering, which succeeds, reports it as a file
  that "contains package configuration".
\<close>

theorem unreadable_key_file_is_kept:
  "getFileContent files_unreachable ''package.json'' = None
   \<and> getKeyFiles files_unreachable sample_tree
       = [\<lparr>path = ''package.json'', content = [], type = ''dependencies'',
           insights = [''Contains package configuration'']\<rparr>]
   \<and> \<not> isl (gatherRepositoryData files_unreachable)"
  by code_simp

lemma every_key_file_is_kept:
  "map path (getKeyFiles g tree) = map item_path (filter is_key_file tree)"
  by (induction tree) (simp_all add: key_file_of_def classify_def)

text \<open>
  C2. No timer guards the AI call. A service that never answers keeps the run waiting: the
  service call does not return and the stream stays open after its two progress events.
  A call that fails is caught, but the report is still labelled as AI-enhanced.
\<close>

theorem ai_call_has_no_timeout:
  "generateComprehensiveOnboarding sample_renderers sample_github sample_github AiNeverReturns
       ''durdan'' ''sdlc-tools'' = None
   \<and> start sample_renderers sample_github sample_github AiNeverReturns connected
         ''durdan'' ''sdlc-tools''
       = \<lparr>enqueued = [Progress ''Starting repository analysis...'',
                      Progress ''Gathering repository data...''],
          isStreamClosed = False, controllerClosed = False\<rparr>
   \<and> map_option (\<lambda>r. (success r, map_option analysisType (metadata r),
                       map_option meta_keyInsights (metadata r)))
        (generateComprehensiveOnboarding sample_renderers sample_github sample_github AiThrows
           ''durdan'' ''sdlc-tools'')
       = Some (True, Some ''claude_enhanced_analysis'',
               Some (Some [''Analysis limited - Claude SDK unavailable'']))"
  by code_simp

lemma analysis_returns_iff: "(performClaudeCodeAnalysis ai = None) = (ai = AiNeverReturns)"
  by (cases ai) (simp_all add: performClaudeCodeAnalysis_def)

section \<open>The architecture label\<close>

lemma dependencies_step_architecture [simp]:
  "architecture (dependencies_step pkg st) = architecture st"
  by (simp add: dependencies_step_def Let_def split: option.split)

lemma scripts_step_architecture:
  "architecture (case scripts_step pkg st of Inl s \<Rightarrow> s | Inr s \<Rightarrow> s) = architecture st"
  by (simp add: scripts_step_def Let_def split: option.split bool.split)

lemma devDependencies_step_architecture [simp]:
  "architecture (devDependencies_step pkg st) = architecture st"
  by (simp add: devDependencies_step_def split: option.split)

lemma package_step_architecture [simp]:
  "architecture (package_step kfs st) = architecture st"
proof -
  have "architecture (case scripts_step pkg s of Inl s2 \<Rightarrow> s2
                      | Inr s2 \<Rightarrow> devDependencies_step pkg s2) = architecture s" for pkg s
    using scripts_step_architecture[of pkg s] by (cases "scripts_step pkg s") simp_all
  then show ?thesis
    by (simp add: package_step_def split: option.split sum.split thrown.split)
qed

lemma requirements_step_architecture [simp]:
  "architecture (requirements_step kfs st) = architecture st"
  by (simp add: requirements_step_def Let_def split: option.split)



lemma devDependencies_step_framework [simp]:
  "framework (devDependencies_step pkg st) = framework st"
  by (simp add: devDependencies_step_def split: option.split)





lemma architecture_step_framework [simp]:
  "framework (architecture_step kfs st) = framework st"
  by (simp add: architecture_step_def)





text \<open>
  The name \<open>Dockerfile\<close>, which is on the list of the analyzer, has no lower-case
  \<open>docker\<close> in it: the test for a container file compares case, and misses it.
\<close>

lemma capital_dockerfile_not_matched:
  \<open>architecture (analyzeProjectStructure
       [analyzeFile ''package.json'' ''{"dependencies":{"express":"^4.18.2"}}'',
        analyzeFile ''Dockerfile'' ''FROM node:20''])
     = ''API Server''\<close>
  by code_simp

section \<open>Key files and their manifests\<close>









lemma manifest_name_tests:
  "\<not> str_includes (toLowerCase ''package.json'') ''readme''"
  "\<not> str_includes ''package.json'' ''schema.prisma''"
  by code_simp+

lemma manifest_file_insights:
  "analyzeFileContent ''package.json'' text = manifest_insights text"
  by (simp add: analyzeFileContent_def manifest_name_tests)

lemma parsed_manifest_throws:
  "isl (parsed_manifest text) = (JSON_parse text = None \<or> JSON_parse text = Some JNull)"
  by (simp add: parsed_manifest_def split: option.split)

text \<open>
  C6 (amended). The classifier returns a key file for every path and text. For the path
  \<open>package.json\<close>, when \<open>JSON.parse\<close> rejects the text or the document is \<open>null\<close> (the two
  throws of the \<open>try\<close>), the insights are the single "Contains package configuration". A
  path that is not \<open>package.json\<close>, has no \<open>readme\<close> in it and no \<open>schema.prisma\<close> gets no
  insight at all, whatever its category and its text.
\<close>

theorem classify_insights:
  "path (classify p text) = p \<and> content (classify p text) = take 2000 text
   \<and> type (classify p text) = getFileType p
   \<and> (JSON_parse text = None \<or> JSON_parse text = Some JNull
        \<longrightarrow> insights (classify ''package.json'' text) = [''Contains package configuration''])
   \<and> (p \<noteq> ''package.json'' \<and> \<not> str_includes (toLowerCase p) ''readme''
          \<and> \<not> str_includes p ''schema.prisma''
        \<longrightarrow> insights (classify p text) = [])"
proof -
  have "insights (classify ''package.json'' text) = [''Contains package configuration'']"
    if "JSON_parse text = None \<or> JSON_parse text = Some JNull"
  proof -
    from that have "isl (parsed_manifest text)" by (simp add: parsed_manifest_throws)
    then have "manifest_insights text = [''Contains package configuration'']"
      by (cases "parsed_manifest text") (simp_all add: manifest_insights_def)
    then show ?thesis by (simp add: classify_def manifest_file_insights)
  qed
  moreover have "insights (classify p text) = []"
    if "p \<noteq> ''package.json'' \<and> \<not> str_includes (toLowerCase p) ''readme''
          \<and> \<not> str_includes p ''schema.prisma''"
    using that by (simp add: classify_def analyzeFileContent_def)
  ultimately show ?thesis by (simp add: classify_def)
qed

theorem classify_insights_witness:
  "JSON_parse ''{'' = None
   \<and> insights (classify ''package.json'' ''{'') = [''Contains package configuration'']
   \<and> ''LICENSE'' \<noteq> ''package.json'' \<and> \<not> str_includes (toLowerCase ''LICENSE'') ''readme''
   \<and> \<not> str_includes ''LICENSE'' ''schema.prisma''
   \<and> insights (classify ''LICENSE'' ''MIT'') = []"
  (is "?bad \<and> ?one \<and> ?name \<and> ?r \<and> ?s \<and> ?none")
proof -
  have bad: ?bad by code_simp
  have name: ?name by simp
  have r: ?r by code_simp
  have s: ?s by code_simp
  note t = classify_insights[of "''LICENSE''" "''MIT''"] classify_insights[of p "''{''" for p]
  from t(2) bad have one: ?one by simp
  from t(1) name r s have ?none by simp
  with bad one name r s show ?thesis by simp
qed

text \<open>
  A manifest in a sub-directory is on the allow-list and in the category of the
  dependency manifests; its text is not JSON, and it gets no insight.
\<close>

theorem nested_manifest_counterexample:
  "is_key_file \<lparr>item_path = ''frontend/package.json'', item_type = ''blob'', item_size = Some 1\<rparr>
   \<and> JSON_parse ''{'' = None
   \<and> classify ''frontend/package.json'' ''{''
       = \<lparr>path = ''frontend/package.json'', content = ''{'', type = ''dependencies'',
          insights = []\<rparr>"
  by code_simp








end
